theory Spec2Isabelle
  imports Complex_Main
begin

section \<open>Values, errors and the Python runtime\<close>

text \<open>
  The program is \<^verbatim>\<open>src/paris.py\<close>: a configuration dictionary, a file descriptor
  whose bucket and key are read from the configuration, a storage engine wrapping a
  boto3 client, a factory selecting the engine by name, a polling worker and a manager
  of worker threads.

  Objects that are shared and mutated (configurations, storage engines, factories,
  queues, cancellation events) live in a store indexed by references; an object that
  nothing else points to (the manager, a worker, a thread) is a record passed by value.
\<close>

type_synonym ref = nat

text \<open>The scalar Python values that reach \<^verbatim>\<open>str(...)\<close> in the program.\<close>

datatype pyval = PNone | PBool bool | PInt int | PStr string

fun digits10 :: "nat \<Rightarrow> string" where
  "digits10 n =
     (if n < 10 then [''0123456789'' ! n]
      else digits10 (n div 10) @ [''0123456789'' ! (n mod 10)])"

declare digits10.simps [simp del]

text \<open>\<^verbatim>\<open>str(x)\<close>.\<close>

fun py_str :: "pyval \<Rightarrow> string" where
  "py_str PNone = ''None''"
| "py_str (PBool b) = (if b then ''True'' else ''False'')"
| "py_str (PInt i) = (if i < 0 then CHR ''-'' # digits10 (nat (- i)) else digits10 (nat i))"
| "py_str (PStr s) = s"

text \<open>
  The exceptions the program can meet. \<open>NotImplementedError\<close> is what
  \<^verbatim>\<open>StorageFactory.build\<close> raises for an unknown provider; \<open>AttributeError\<close> is
  \<^verbatim>\<open>None.upload_file\<close> on a closed engine; \<open>ValueError\<close> comes from \<^verbatim>\<open>int\<close> and
  \<^verbatim>\<open>float\<close>, from \<^verbatim>\<open>time.sleep\<close> and from \<^verbatim>\<open>boto3.client\<close> on an endpoint that is
  no URL; \<open>RuntimeError\<close> from \<^verbatim>\<open>Thread.start\<close> and \<^verbatim>\<open>Thread.join\<close>;
  \<open>ClientError\<close> stands for any exception of the boto3 upload call.
\<close>

datatype error = NotImplementedError | AttributeError | ValueError | RuntimeError | ClientError

text \<open>The arguments of \<^verbatim>\<open>client.upload_file(Filename=, Bucket=, Key=)\<close>.\<close>

record upload_req =
  Filename :: string
  Bucket :: "string option"
  Key :: string

text \<open>
  The keyword arguments of a call \<^verbatim>\<open>boto3.client("s3", ...)\<close>, and the client such a
  call returns, identified by them.
\<close>

record client =
  aws_access_key_id :: "string option"
  aws_secret_access_key :: "string option"
  endpoint_url :: "string option"

text \<open>
  The calls that leave the program: to boto3 (a call of \<^verbatim>\<open>boto3.client\<close> that returned
  a client, or that raised), to the boto3 client, to the queue, to \<^verbatim>\<open>time.sleep\<close> and
  to \<^verbatim>\<open>Thread.join\<close>. The type \<open>'f\<close> is the type of Python floats.
\<close>

datatype 'f event =
    ClientCreated client
  | ClientRefused client error
  | ClientClosed client
  | UploadCall client upload_req
  | QueueGet ref "bool"
  | Sleep 'f
  | Join nat int

text \<open>
  What the program takes from outside the repository: the builtins \<^verbatim>\<open>int\<close> and
  \<^verbatim>\<open>float\<close> on a string, the float literal \<^verbatim>\<open>0.2\<close>, whether \<^verbatim>\<open>time.sleep\<close>
  refuses a float (it raises \<^verbatim>\<open>ValueError\<close> on a negative one), the exception
  \<^verbatim>\<open>boto3.client\<close> raises on its arguments, if it raises one (it raises
  \<^verbatim>\<open>ValueError\<close> on an endpoint that is no URL), and whether a call of the boto3
  client's \<^verbatim>\<open>upload_file\<close> raises (it may depend on everything that happened before).
\<close>

record 'f runtime =
  int_of_str :: "string \<Rightarrow> error + int"
  float_of_str :: "string \<Rightarrow> error + 'f"
  float_0_2 :: 'f
  sleep_raises :: "'f \<Rightarrow> bool"
  client_raises :: "client \<Rightarrow> error option"
  upload_raises :: "'f event list \<Rightarrow> client \<Rightarrow> upload_req \<Rightarrow> bool"

section \<open>PropertiesConfig\<close>

text \<open>
  \<^verbatim>\<open>self._conf\<close>: a dictionary that only \<^verbatim>\<open>put\<close> writes, and \<^verbatim>\<open>put\<close> stores
  \<^verbatim>\<open>str(key)\<close> and \<^verbatim>\<open>str(value)\<close>, so keys and values are strings.
\<close>

type_synonym conf = "string \<rightharpoonup> string"

definition PropertiesConfig_init :: conf where
  "PropertiesConfig_init = Map.empty"

text \<open>
  \<^verbatim>\<open>self._conf.get(key, None)\<close>: the key is looked up as it is given, without
  \<^verbatim>\<open>str\<close>; a key that is not a string equals no stored key. \<open>None\<close> is Python's
  \<^verbatim>\<open>None\<close>.
\<close>

fun PropertiesConfig_get :: "conf \<Rightarrow> pyval \<Rightarrow> string option" where
  "PropertiesConfig_get c (PStr k) = c k"
| "PropertiesConfig_get c _ = None"

definition PropertiesConfig_put :: "conf \<Rightarrow> pyval \<Rightarrow> pyval \<Rightarrow> conf" where
  "PropertiesConfig_put c key val = c(py_str key \<mapsto> py_str val)"

text \<open>
  \<^verbatim>\<open>PropertiesConfig.from_properties\<close>: the loop over the properties, on the
  configuration \<open>c\<close> built so far, and the whole function on a new configuration.
\<close>

fun from_properties_loop :: "(pyval \<times> pyval) list \<Rightarrow> conf \<Rightarrow> conf" where
  "from_properties_loop [] c = c"
| "from_properties_loop (prop # props) c =
     from_properties_loop props
       (PropertiesConfig_put c (PStr (py_str (fst prop))) (PStr (py_str (snd prop))))"

definition from_properties :: "(pyval \<times> pyval) list \<Rightarrow> conf" where
  "from_properties properties = from_properties_loop properties PropertiesConfig_init"

text \<open>
  \<^verbatim>\<open>int(x or d)\<close> and \<^verbatim>\<open>float(x or 0.2)\<close> for \<^verbatim>\<open>x = config.get(...)\<close>:
  \<^verbatim>\<open>None\<close> and the empty string are false, and then the default is converted, which
  leaves it as it is.
\<close>

definition int_or :: "'f runtime \<Rightarrow> string option \<Rightarrow> int \<Rightarrow> error + int" where
  "int_or rt x d =
     (case x of None \<Rightarrow> Inr d | Some s \<Rightarrow> if s = [] then Inr d else int_of_str rt s)"

definition float_or_0_2 :: "'f runtime \<Rightarrow> string option \<Rightarrow> error + 'f" where
  "float_or_0_2 rt x =
     (case x of
        None \<Rightarrow> Inr (float_0_2 rt)
      | Some s \<Rightarrow> if s = [] then Inr (float_0_2 rt) else float_of_str rt s)"

section \<open>File\<close>

record File =
  f_config :: ref
  f_filepath :: string
  f_filetype :: pyval
  f_filename :: string

text \<open>Both properties read the configuration each time they are evaluated.\<close>

definition File_bucket :: "conf \<Rightarrow> File \<Rightarrow> string option" where
  "File_bucket c f =
     PropertiesConfig_get c (PStr (''files.'' @ py_str (f_filetype f) @ ''.bucket''))"

definition File_key :: "conf \<Rightarrow> File \<Rightarrow> string" where
  "File_key c f =
     (let confkey = ''files.'' @ py_str (f_filetype f) @ ''.key'';
          prefix = PropertiesConfig_get c (PStr confkey)
      in case prefix of
           None \<Rightarrow> f_filename f
         | Some p \<Rightarrow> if p \<noteq> [] then p @ f_filename f else f_filename f)"

section \<open>SimpleStorage\<close>

text \<open>
  A storage engine. \<^verbatim>\<open>SimpleStorage\<close> is the one engine of the program and its
  identifier is \<^verbatim>\<open>"s3"\<close>; an engine under another identifier is taken to open,
  close and upload as \<^verbatim>\<open>SimpleStorage\<close> does.
\<close>

record SimpleStorage =
  ss_config :: ref
  ss_client :: "client option"
  ss_identifier :: string

definition SimpleStorage_init :: "ref \<Rightarrow> client option \<Rightarrow> SimpleStorage" where
  "SimpleStorage_init config cl =
     \<lparr>ss_config = config, ss_client = cl, ss_identifier = ''s3''\<rparr>"

section \<open>StorageFactory\<close>

text \<open>\<^verbatim>\<open>self._options\<close> maps an identifier to the engine object registered under it.\<close>

record StorageFactory =
  sf_config :: ref
  sf_options :: "string \<rightharpoonup> ref"

definition StorageFactory_init :: "ref \<Rightarrow> (string \<rightharpoonup> ref) option \<Rightarrow> StorageFactory" where
  "StorageFactory_init config storage_options =
     \<lparr>sf_config = config,
      sf_options = (case storage_options of None \<Rightarrow> Map.empty | Some m \<Rightarrow> m)\<rparr>"

section \<open>The store\<close>

text \<open>
  The shared objects, by reference: \<open>PropertiesConfig\<close> dictionaries, storage
  engines, factories, \<^verbatim>\<open>queue.Queue\<close> contents (head first) and
  \<^verbatim>\<open>threading.Event\<close> flags; and the calls made so far, oldest first.
\<close>

record 'f world =
  configs :: "ref \<Rightarrow> conf"
  storages :: "ref \<Rightarrow> SimpleStorage"
  factories :: "ref \<Rightarrow> StorageFactory"
  queues :: "ref \<Rightarrow> File list"
  tokens :: "ref \<Rightarrow> bool"
  trace :: "'f event list"

definition emit :: "'f event \<Rightarrow> 'f world \<Rightarrow> 'f world" where
  "emit e w = w\<lparr>trace := trace w @ [e]\<rparr>"

text \<open>
  \<^verbatim>\<open>SimpleStorage.close\<close>: a client object is true, \<^verbatim>\<open>None\<close> is false.
\<close>

definition SimpleStorage_close :: "ref \<Rightarrow> 'f world \<Rightarrow> 'f world" where
  "SimpleStorage_close r w =
     (case ss_client (storages w r) of
        None \<Rightarrow> w
      | Some cl \<Rightarrow>
          (emit (ClientClosed cl) w)
            \<lparr>storages := (storages w)(r := (storages w r)\<lparr>ss_client := None\<rparr>)\<rparr>)"

text \<open>
  The keyword arguments \<^verbatim>\<open>SimpleStorage.open\<close> passes to \<^verbatim>\<open>boto3.client\<close>: three
  entries of the configuration \<open>c\<close>.
\<close>

definition client_args :: "conf \<Rightarrow> client" where
  "client_args c =
     \<lparr>aws_access_key_id = PropertiesConfig_get c (PStr ''aws_access_key_id''),
      aws_secret_access_key = PropertiesConfig_get c (PStr ''aws_secret_access_key''),
      endpoint_url = PropertiesConfig_get c (PStr ''endpoint_url'')\<rparr>"

text \<open>
  \<^verbatim>\<open>SimpleStorage.open\<close>: closes, then calls \<^verbatim>\<open>boto3.client("s3", ...)\<close> with the
  three entries of the engine's configuration. When that call raises, the exception
  leaves \<^verbatim>\<open>open()\<close> after \<^verbatim>\<open>close()\<close> has run, so the engine is left without a
  client; otherwise the engine holds the new client.
\<close>

definition SimpleStorage_open :: "'f runtime \<Rightarrow> ref \<Rightarrow> 'f world \<Rightarrow> error option \<times> 'f world" where
  "SimpleStorage_open rt r w =
     (let w1 = SimpleStorage_close r w;
          args = client_args (configs w1 (ss_config (storages w1 r)))
      in case client_raises rt args of
           Some e \<Rightarrow> (Some e, emit (ClientRefused args e) w1)
         | None \<Rightarrow>
             (None,
              (emit (ClientCreated args) w1)
                \<lparr>storages := (storages w1)(r := (storages w1 r)\<lparr>ss_client := Some args\<rparr>)\<rparr>))"

text \<open>
  \<^verbatim>\<open>SimpleStorage.upload_file\<close>: \<^verbatim>\<open>self._client.upload_file\<close> is looked up
  first, so a closed engine raises before the file's properties are read.
\<close>

definition SimpleStorage_upload_file ::
    "'f runtime \<Rightarrow> ref \<Rightarrow> File \<Rightarrow> 'f world \<Rightarrow> error option \<times> 'f world" where
  "SimpleStorage_upload_file rt r file w =
     (case ss_client (storages w r) of
        None \<Rightarrow> (Some AttributeError, w)
      | Some cl \<Rightarrow>
          (let c = configs w (f_config file);
               req = \<lparr>Filename = f_filepath file, Bucket = File_bucket c file,
                      Key = File_key c file\<rparr>
           in (if upload_raises rt (trace w) cl req then Some ClientError else None,
               emit (UploadCall cl req) w)))"

text \<open>\<^verbatim>\<open>StorageFactory.register\<close>, on the factory \<open>fr\<close> and the engine \<open>sr\<close>.\<close>

definition StorageFactory_register :: "ref \<Rightarrow> ref \<Rightarrow> 'f world \<Rightarrow> 'f world" where
  "StorageFactory_register fr sr w =
     w\<lparr>factories := (factories w)
         (fr := (factories w fr)
            \<lparr>sf_options := (sf_options (factories w fr))
               (ss_identifier (storages w sr) \<mapsto> sr)\<rparr>)\<rparr>"

text \<open>
  \<^verbatim>\<open>StorageFactory.build\<close>: \<^verbatim>\<open>self._options.get(storage_type)\<close> is \<^verbatim>\<open>None\<close> when
  the provider is not configured (no identifier is \<^verbatim>\<open>None\<close>) or names no
  registered engine; an engine object is true. An exception of \<^verbatim>\<open>option.open()\<close>
  leaves \<^verbatim>\<open>build()\<close>.
\<close>

definition StorageFactory_build ::
    "'f runtime \<Rightarrow> ref \<Rightarrow> 'f world \<Rightarrow> (error + ref) \<times> 'f world" where
  "StorageFactory_build rt fr w =
     (let storage_type =
            PropertiesConfig_get (configs w (sf_config (factories w fr))) (PStr ''files.provider'')
      in case Option.bind storage_type (sf_options (factories w fr)) of
           Some option \<Rightarrow>
             (case SimpleStorage_open rt option w of
                (Some e, w1) \<Rightarrow> (Inl e, w1)
              | (None, w1) \<Rightarrow> (Inr option, w1))
         | None \<Rightarrow> (Inl NotImplementedError, w))"

section \<open>Worker\<close>

record 'f Worker =
  w_config :: ref
  w_worker_queue :: ref
  w_cancellation_token :: ref
  w_factory :: ref
  w_uploader :: ref
  w_timeout :: 'f

text \<open>
  \<^verbatim>\<open>Worker.__init__\<close>: every worker calls \<^verbatim>\<open>factory.build()\<close> itself, then reads its
  poll interval.
\<close>

definition Worker_init ::
    "'f runtime \<Rightarrow> ref \<Rightarrow> ref \<Rightarrow> ref \<Rightarrow> ref \<Rightarrow> 'f world \<Rightarrow> (error + 'f Worker) \<times> 'f world" where
  "Worker_init rt config worker_queue cancellation_token factory w =
     (case StorageFactory_build rt factory w of
        (Inl e, w1) \<Rightarrow> (Inl e, w1)
      | (Inr uploader, w1) \<Rightarrow>
          (case float_or_0_2 rt
                  (PropertiesConfig_get (configs w1 config) (PStr ''worker.timeout'')) of
             Inl e \<Rightarrow> (Inl e, w1)
           | Inr t \<Rightarrow>
               (Inr \<lparr>w_config = config, w_worker_queue = worker_queue,
                      w_cancellation_token = cancellation_token, w_factory = factory,
                      w_uploader = uploader, w_timeout = t\<rparr>, w1)))"

text \<open>
  One pass of the loop of \<^verbatim>\<open>Worker.run\<close>, from the test of the token to the end of
  the sleep. \<open>Exit\<close>: the token was set and \<^verbatim>\<open>run\<close> returns. \<open>Raised\<close>: an
  exception leaves \<^verbatim>\<open>run\<close> (nothing in it catches one but \<^verbatim>\<open>queue.Empty\<close>).
  \<open>Again\<close>: the loop goes back to the test. A \<open>File\<close> object is true, so every item
  taken from the queue is uploaded.
\<close>

datatype pass = Exit | Raised error | Again

definition Worker_sleep :: "'f runtime \<Rightarrow> 'f Worker \<Rightarrow> 'f world \<Rightarrow> pass \<times> 'f world" where
  "Worker_sleep rt wk w =
     (if sleep_raises rt (w_timeout wk) then (Raised ValueError, w)
      else (Again, emit (Sleep (w_timeout wk)) w))"

definition Worker_pass :: "'f runtime \<Rightarrow> 'f Worker \<Rightarrow> 'f world \<Rightarrow> pass \<times> 'f world" where
  "Worker_pass rt wk w =
     (if tokens w (w_cancellation_token wk) then (Exit, w)
      else
        (case queues w (w_worker_queue wk) of
           [] \<Rightarrow> Worker_sleep rt wk (emit (QueueGet (w_worker_queue wk) False) w)
         | item # rest \<Rightarrow>
             (case SimpleStorage_upload_file rt (w_uploader wk) item
                     ((emit (QueueGet (w_worker_queue wk) True) w)
                        \<lparr>queues := (queues w)(w_worker_queue wk := rest)\<rparr>) of
                (Some e, w2) \<Rightarrow> (Raised e, w2)
              | (None, w2) \<Rightarrow> Worker_sleep rt wk w2)))"

text \<open>
  \<^verbatim>\<open>Worker.run\<close>. The loop has no bound, so the model counts passes: \<open>Running\<close> is
  the loop still going when the count is used up. While the worker sleeps in pass \<open>i\<close>
  the other threads (producers, the host setting the token, other workers) change the
  store by \<open>others i\<close>.
\<close>

datatype run_result = Returned | Threw error | Running

fun Worker_run_from ::
    "'f runtime \<Rightarrow> (nat \<Rightarrow> 'f world \<Rightarrow> 'f world) \<Rightarrow> nat \<Rightarrow> nat \<Rightarrow> 'f Worker \<Rightarrow> 'f world
       \<Rightarrow> run_result \<times> 'f world" where
  "Worker_run_from rt others i 0 wk w = (Running, w)"
| "Worker_run_from rt others i (Suc n) wk w =
     (case Worker_pass rt wk w of
        (Exit, w1) \<Rightarrow> (Returned, w1)
      | (Raised e, w1) \<Rightarrow> (Threw e, w1)
      | (Again, w1) \<Rightarrow> Worker_run_from rt others (Suc i) n wk (others i w1))"

definition Worker_run ::
    "'f runtime \<Rightarrow> (nat \<Rightarrow> 'f world \<Rightarrow> 'f world) \<Rightarrow> nat \<Rightarrow> 'f Worker \<Rightarrow> 'f world
       \<Rightarrow> run_result \<times> 'f world" where
  "Worker_run rt others n wk w = Worker_run_from rt others 0 n wk w"

section \<open>Manager\<close>

text \<open>
  A \<^verbatim>\<open>threading.Thread\<close> whose target is a worker's \<^verbatim>\<open>run\<close>: \<open>Initial\<close> before
  \<^verbatim>\<open>start()\<close>, \<open>Alive\<close> while \<^verbatim>\<open>run\<close> executes, then \<open>Stopped\<close> when \<^verbatim>\<open>run\<close> has
  returned or \<open>Died\<close> when an exception has left it.
\<close>

datatype tstatus = Initial | Alive | Stopped | Died error

record 'f Thread =
  t_target :: "'f Worker"
  t_status :: tstatus

record 'f Manager =
  m_config :: ref
  m_worker_queue :: ref
  m_cancellation_token :: ref
  m_factory :: ref
  m_workers :: "'f Thread list"
  m_number_of_threads :: int
  m_join_timeout :: int

definition Manager_init ::
    "'f runtime \<Rightarrow> ref \<Rightarrow> ref \<Rightarrow> ref \<Rightarrow> ref \<Rightarrow> 'f world \<Rightarrow> error + 'f Manager" where
  "Manager_init rt config worker_queue cancellation_token factory w =
     (case int_or rt (PropertiesConfig_get (configs w config) (PStr ''worker.threads'')) 1 of
        Inl e \<Rightarrow> Inl e
      | Inr n \<Rightarrow>
          (case int_or rt
                  (PropertiesConfig_get (configs w config) (PStr ''worker.join.timeout'')) 60 of
             Inl e \<Rightarrow> Inl e
           | Inr j \<Rightarrow>
               Inr \<lparr>m_config = config, m_worker_queue = worker_queue,
                     m_cancellation_token = cancellation_token, m_factory = factory,
                     m_workers = [], m_number_of_threads = n, m_join_timeout = j\<rparr>))"

text \<open>
  \<^verbatim>\<open>Manager.prepare\<close>: the loop over \<^verbatim>\<open>range(0, n)\<close>, with \<open>k\<close> passes left. An
  exception of \<^verbatim>\<open>Worker(...)\<close> leaves \<^verbatim>\<open>prepare\<close> with the threads appended so far.
\<close>

fun prepare_loop ::
    "'f runtime \<Rightarrow> nat \<Rightarrow> 'f Manager \<Rightarrow> 'f world \<Rightarrow> error option \<times> 'f Manager \<times> 'f world" where
  "prepare_loop rt 0 m w = (None, m, w)"
| "prepare_loop rt (Suc k) m w =
     (case Worker_init rt (m_config m) (m_worker_queue m) (m_cancellation_token m)
             (m_factory m) w of
        (Inl e, w1) \<Rightarrow> (Some e, m, w1)
      | (Inr worker, w1) \<Rightarrow>
          prepare_loop rt k
            (m\<lparr>m_workers := m_workers m @ [\<lparr>t_target = worker, t_status = Initial\<rparr>]\<rparr>) w1)"

definition Manager_prepare ::
    "'f runtime \<Rightarrow> 'f Manager \<Rightarrow> 'f world \<Rightarrow> error option \<times> 'f Manager \<times> 'f world" where
  "Manager_prepare rt m w =
     prepare_loop rt (nat (m_number_of_threads m)) (m\<lparr>m_workers := []\<rparr>) w"





section \<open>Threads running together\<close>

text \<open>
  The threads of a manager interleave: a schedule names, pass by pass, the thread that
  runs next. A thread that is not alive does nothing. An exception that leaves a
  thread's target ends that thread only.
\<close>

definition thread_pass ::
    "'f runtime \<Rightarrow> nat \<Rightarrow> 'f Thread list \<times> 'f world \<Rightarrow> 'f Thread list \<times> 'f world" where
  "thread_pass rt i s =
     (case s of (ts, w) \<Rightarrow>
        if i < length ts \<and> t_status (ts ! i) = Alive then
          (case Worker_pass rt (t_target (ts ! i)) w of
             (Exit, w1) \<Rightarrow> (ts[i := (ts ! i)\<lparr>t_status := Stopped\<rparr>], w1)
           | (Raised e, w1) \<Rightarrow> (ts[i := (ts ! i)\<lparr>t_status := Died e\<rparr>], w1)
           | (Again, w1) \<Rightarrow> (ts, w1))
        else (ts, w))"

fun threads_run ::
    "'f runtime \<Rightarrow> nat list \<Rightarrow> 'f Thread list \<times> 'f world \<Rightarrow> 'f Thread list \<times> 'f world" where
  "threads_run rt [] s = s"
| "threads_run rt (i # sched) s = threads_run rt sched (thread_pass rt i s)"

text \<open>
  The number of \<^verbatim>\<open>open()\<close> calls in a trace: \<^verbatim>\<open>SimpleStorage.open\<close> is the only
  place that calls \<^verbatim>\<open>boto3.client\<close>, and it calls it once at every call, whether the
  call returns a client or raises.
\<close>

fun opens :: "'f event list \<Rightarrow> nat" where
  "opens [] = 0"
| "opens (ClientCreated cl # es) = Suc (opens es)"
| "opens (ClientRefused cl e # es) = Suc (opens es)"
| "opens (e # es) = opens es"

section \<open>The program's own run\<close>

text \<open>The configuration, factory and engine that \<^verbatim>\<open>__main__\<close> sets up.\<close>

definition main_properties :: "(pyval \<times> pyval) list" where
  "main_properties =
     [(PStr ''aws_access_key_id'', PStr ''miniobomt1me''),
      (PStr ''aws_secret_access_key'', PStr ''miniobomt1me''),
      (PStr ''endpoint_url'', PStr ''http://localhost:9000''),
      (PStr ''files.upload.bucket'', PStr ''bom''),
      (PStr ''files.upload.key'', PStr ''upload/''),
      (PStr ''files.provider'', PStr ''s3''),
      (PStr ''worker.threads'', PStr ''7''),
      (PStr ''worker.join.timeout'', PStr ''60''),
      (PStr ''worker.timeout'', PStr ''0.05'')]"

definition main_config :: conf where
  "main_config = from_properties main_properties"

text \<open>
  A runtime for the examples, with rational numbers as floats: \<^verbatim>\<open>int\<close> and
  \<^verbatim>\<open>float\<close> read the strings the examples use, \<^verbatim>\<open>boto3.client\<close> refuses the
  endpoint \<^verbatim>\<open>"not a url"\<close>, and no upload fails.
\<close>

definition example_runtime :: "rat runtime" where
  "example_runtime =
     \<lparr>int_of_str = (\<lambda>s. case map_of [(''7'', 7), (''60'', 60), (''2'', 2), (''0'', 0)] s of
                            Some n \<Rightarrow> Inr n | None \<Rightarrow> Inl ValueError),
      float_of_str = (\<lambda>s. case map_of [(''0.05'', 1 / 20), (''-1'', - 1)] s of
                              Some x \<Rightarrow> Inr x | None \<Rightarrow> Inl ValueError),
      float_0_2 = 1 / 5,
      sleep_raises = (\<lambda>t. t < 0),
      client_raises = (\<lambda>args. if endpoint_url args = Some ''not a url'' then Some ValueError
                               else None),
      upload_raises = (\<lambda>tr cl req. False)\<rparr>"

text \<open>The same runtime with a remote store that refuses every upload.\<close>

definition failing_runtime :: "rat runtime" where
  "failing_runtime = example_runtime\<lparr>upload_raises := (\<lambda>tr cl req. True)\<rparr>"

text \<open>
  The store after \<^verbatim>\<open>storage_factory.register(storage)\<close>: every reference is 0, one
  object of each kind.
\<close>

definition fresh_world :: "conf \<Rightarrow> rat world" where
  "fresh_world c =
     \<lparr>configs = (\<lambda>r. c), storages = (\<lambda>r. SimpleStorage_init 0 None),
      factories = (\<lambda>r. StorageFactory_init 0 None), queues = (\<lambda>r. []),
      tokens = (\<lambda>r. False), trace = []\<rparr>"

definition main_world :: "rat world" where
  "main_world = StorageFactory_register 0 0 (fresh_world main_config)"

definition main_manager :: "rat Manager" where
  "main_manager =
     \<lparr>m_config = 0, m_worker_queue = 0, m_cancellation_token = 0, m_factory = 0,
      m_workers = [], m_number_of_threads = 7, m_join_timeout = 60\<rparr>"

definition main_worker :: "rat Worker" where
  "main_worker =
     \<lparr>w_config = 0, w_worker_queue = 0, w_cancellation_token = 0, w_factory = 0,
      w_uploader = 0, w_timeout = 1 / 20\<rparr>"

text \<open>The client \<^verbatim>\<open>boto3.client\<close> returns for the configuration of \<^verbatim>\<open>__main__\<close>.\<close>

definition main_client :: client where
  "main_client =
     \<lparr>aws_access_key_id = Some ''miniobomt1me'', aws_secret_access_key = Some ''miniobomt1me'',
      endpoint_url = Some ''http://localhost:9000''\<rparr>"

definition main_file :: "string \<Rightarrow> File" where
  "main_file name =
     \<lparr>f_config = 0, f_filepath = ''./carne_asada.dat'', f_filetype = PStr ''upload'',
      f_filename = name\<rparr>"

text \<open>No other thread acts while a worker sleeps.\<close>

definition no_others :: "nat \<Rightarrow> 'f world \<Rightarrow> 'f world" where
  "no_others i w = w"

text \<open>
  Two engines with the identifiers \<^verbatim>\<open>"a"\<close> (reference 1) and \<^verbatim>\<open>"b"\<close> (reference 2),
  registered in this order, in the configuration of \<^verbatim>\<open>__main__\<close> with
  \<^verbatim>\<open>files.provider\<close> set to \<^verbatim>\<open>"b"\<close>.
\<close>

definition ab_world :: "rat world" where
  "ab_world =
     StorageFactory_register 0 2 (StorageFactory_register 0 1
       ((fresh_world (PropertiesConfig_put main_config (PStr ''files.provider'') (PStr ''b'')))
          \<lparr>storages := (\<lambda>r. \<lparr>ss_config = 0, ss_client = None,
                                 ss_identifier = (if r = 1 then ''a'' else ''b'')\<rparr>)\<rparr>))"

text \<open>
  The store of \<^verbatim>\<open>__main__\<close> once the engine is open and two files are queued.
\<close>

definition busy_world :: "rat world" where
  "busy_world =
     (snd (SimpleStorage_open example_runtime 0 main_world))
       \<lparr>queues := (\<lambda>r. [main_file ''a.dat'', main_file ''b.dat''])\<rparr>"

text \<open>
  A store whose configuration is that of \<^verbatim>\<open>__main__\<close> without the three entries
  \<^verbatim>\<open>worker.*\<close>, with the engine \<^verbatim>\<open>"s3"\<close> registered.
\<close>

definition default_world :: "rat world" where
  "default_world =
     StorageFactory_register 0 0 (fresh_world (from_properties (take 6 main_properties)))"

text \<open>
  The store with the engine open and two files queued, after \<^verbatim>\<open>endpoint_url\<close> has
  been put to a string that is no URL.
\<close>

definition broken_config :: conf where
  "broken_config = PropertiesConfig_put main_config (PStr ''endpoint_url'') (PStr ''not a url'')"

definition broken_world :: "rat world" where
  "broken_world = busy_world\<lparr>configs := (\<lambda>r. broken_config)\<rparr>"



text \<open>The store with the two files queued, after the host has set the cancellation token.\<close>

definition cancelled_world :: "rat world" where
  "cancelled_world = busy_world\<lparr>tokens := (\<lambda>r. True)\<rparr>"

text \<open>
  Two threads of \<^verbatim>\<open>__main__\<close>'s workers, both started and in their loops, and a
  manager holding them whose join timeout is 0.
\<close>

definition two_threads :: "rat Thread list" where
  "two_threads =
     [\<lparr>t_target = main_worker, t_status = Alive\<rparr>, \<lparr>t_target = main_worker, t_status = Alive\<rparr>]"


section \<open>Facts about the examples\<close>

lemmas cfg_defs =
  main_config_def from_properties_def main_properties_def PropertiesConfig_put_def
  PropertiesConfig_init_def

lemma main_config_provider: "main_config ''files.provider'' = Some ''s3''"
  by (simp add: cfg_defs)

lemma main_config_timeout: "main_config ''worker.timeout'' = Some ''0.05''"
  by (simp add: cfg_defs)

section \<open>What each operation leaves alone\<close>

lemma emit_fields [simp]:
  "tokens (emit e w) = tokens w" "queues (emit e w) = queues w"
  "configs (emit e w) = configs w" "storages (emit e w) = storages w"
  "factories (emit e w) = factories w" "trace (emit e w) = trace w @ [e]"
  by (simp_all add: emit_def)

lemma close_fields [simp]:
  "configs (SimpleStorage_close r w) = configs w"
  "factories (SimpleStorage_close r w) = factories w"
  "queues (SimpleStorage_close r w) = queues w"
  "tokens (SimpleStorage_close r w) = tokens w"
  "ss_config (storages (SimpleStorage_close r w) r') = ss_config (storages w r')"
  "ss_identifier (storages (SimpleStorage_close r w) r') = ss_identifier (storages w r')"
  "ss_client (storages (SimpleStorage_close r w) r) = None"
  by (simp_all add: SimpleStorage_close_def split: option.splits)

lemma open_fields [simp]:
  "configs (snd (SimpleStorage_open rt r w)) = configs w"
  "factories (snd (SimpleStorage_open rt r w)) = factories w"
  "queues (snd (SimpleStorage_open rt r w)) = queues w"
  "tokens (snd (SimpleStorage_open rt r w)) = tokens w"
  "ss_config (storages (snd (SimpleStorage_open rt r w)) r') = ss_config (storages w r')"
  "ss_identifier (storages (snd (SimpleStorage_open rt r w)) r') = ss_identifier (storages w r')"
  by (simp_all add: SimpleStorage_open_def Let_def split: option.splits)

lemma open_result:
  "fst (SimpleStorage_open rt r w)
     = client_raises rt (client_args (configs w (ss_config (storages w r))))"
  by (simp add: SimpleStorage_open_def Let_def split: option.splits)

lemma open_client:
  "ss_client (storages (snd (SimpleStorage_open rt r w)) r) =
     (case client_raises rt (client_args (configs w (ss_config (storages w r)))) of
        Some e \<Rightarrow> None
      | None \<Rightarrow> Some (client_args (configs w (ss_config (storages w r)))))"
  by (simp add: SimpleStorage_open_def Let_def split: option.splits)

lemma open_other_client:
  "r' \<noteq> r \<Longrightarrow>
   ss_client (storages (snd (SimpleStorage_open rt r w)) r') = ss_client (storages w r')"
  by (simp add: SimpleStorage_open_def SimpleStorage_close_def Let_def split: option.splits)

lemma open_trace:
  "trace (snd (SimpleStorage_open rt r w)) =
     trace w
     @ (case ss_client (storages w r) of None \<Rightarrow> [] | Some cl \<Rightarrow> [ClientClosed cl])
     @ [case client_raises rt (client_args (configs w (ss_config (storages w r)))) of
          Some e \<Rightarrow> ClientRefused (client_args (configs w (ss_config (storages w r)))) e
        | None \<Rightarrow> ClientCreated (client_args (configs w (ss_config (storages w r))))]"
  by (simp add: SimpleStorage_open_def SimpleStorage_close_def Let_def split: option.splits)

lemma opens_append [simp]: "opens (xs @ ys) = opens xs + opens ys"
  by (induction xs rule: opens.induct) simp_all

lemma opens_open [simp]:
  "opens (trace (snd (SimpleStorage_open rt r w))) = Suc (opens (trace w))"
  by (simp add: open_trace split: option.splits)

lemma opens_funpow:
  "opens (trace (((\<lambda>v. snd (SimpleStorage_open rt r v)) ^^ k) w)) = opens (trace w) + k"
  by (induction k) simp_all

lemma funpow_open_fields [simp]:
  "configs (((\<lambda>v. snd (SimpleStorage_open rt r v)) ^^ k) w) = configs w"
  "factories (((\<lambda>v. snd (SimpleStorage_open rt r v)) ^^ k) w) = factories w"
  "queues (((\<lambda>v. snd (SimpleStorage_open rt r v)) ^^ k) w) = queues w"
  "tokens (((\<lambda>v. snd (SimpleStorage_open rt r v)) ^^ k) w) = tokens w"
  "ss_config (storages (((\<lambda>v. snd (SimpleStorage_open rt r v)) ^^ k) w) r')
     = ss_config (storages w r')"
  by (induction k) simp_all

lemma build_registered:
  "PropertiesConfig_get (configs w (sf_config (factories w fr))) (PStr ''files.provider'')
     = Some name
   \<Longrightarrow> sf_options (factories w fr) name = Some r
   \<Longrightarrow> StorageFactory_build rt fr w =
        (case client_raises rt (client_args (configs w (ss_config (storages w r)))) of
           Some e \<Rightarrow> Inl e | None \<Rightarrow> Inr r,
         snd (SimpleStorage_open rt r w))"
  using open_result [of rt r w]
  by (cases "SimpleStorage_open rt r w") (auto simp: StorageFactory_build_def split: option.splits)

lemma build_configs:
  "configs (snd (StorageFactory_build rt fr w)) = configs w"
proof (cases "Option.bind
    (PropertiesConfig_get (configs w (sf_config (factories w fr))) (PStr ''files.provider''))
    (sf_options (factories w fr))")
  case None
  then show ?thesis by (simp add: StorageFactory_build_def)
next
  case (Some r)
  then have "snd (StorageFactory_build rt fr w) = snd (SimpleStorage_open rt r w)"
    by (cases "SimpleStorage_open rt r w")
      (auto simp: StorageFactory_build_def split: option.splits)
  then show ?thesis by simp
qed

lemma Worker_init_ok:
  "PropertiesConfig_get (configs w (sf_config (factories w fr))) (PStr ''files.provider'')
     = Some name
   \<Longrightarrow> sf_options (factories w fr) name = Some r
   \<Longrightarrow> client_raises rt (client_args (configs w (ss_config (storages w r)))) = None
   \<Longrightarrow> float_or_0_2 rt (PropertiesConfig_get (configs w c) (PStr ''worker.timeout'')) = Inr t
   \<Longrightarrow> Worker_init rt c q tok fr w =
        (Inr \<lparr>w_config = c, w_worker_queue = q, w_cancellation_token = tok, w_factory = fr,
               w_uploader = r, w_timeout = t\<rparr>, snd (SimpleStorage_open rt r w))"
  by (simp add: Worker_init_def build_registered)

lemma main_world_closed: "ss_client (storages main_world 0) = None"
  by (simp add: main_world_def StorageFactory_register_def fresh_world_def SimpleStorage_init_def)

lemma main_world_trace: "trace main_world = []"
  by (simp add: main_world_def StorageFactory_register_def fresh_world_def)

lemma main_world_config: "configs main_world r = main_config"
  by (simp add: main_world_def StorageFactory_register_def fresh_world_def)

lemma main_world_engine_config: "ss_config (storages main_world r) = 0"
  by (simp add: main_world_def StorageFactory_register_def fresh_world_def SimpleStorage_init_def)

lemma main_world_registered: "sf_options (factories main_world 0) ''s3'' = Some 0"
  by (simp add: main_world_def StorageFactory_register_def fresh_world_def SimpleStorage_init_def)

lemma main_client_args: "client_args main_config = main_client"
  by (simp add: client_args_def main_client_def cfg_defs)

lemma main_client_accepted: "client_raises example_runtime main_client = None"
  by (simp add: example_runtime_def main_client_def)

lemma open_main_world_result: "fst (SimpleStorage_open example_runtime 0 main_world) = None"
  by (simp add: open_result main_world_config main_client_args main_client_accepted)

lemma open_main_world_client:
  "ss_client (storages (snd (SimpleStorage_open example_runtime 0 main_world)) 0)
     = Some main_client"
  by (simp add: open_client main_world_config main_client_args main_client_accepted)

lemma open_main_world_trace:
  "trace (snd (SimpleStorage_open example_runtime 0 main_world)) = [ClientCreated main_client]"
  by (simp add: open_trace main_world_config main_client_args main_client_accepted
        main_world_closed main_world_trace)

lemma from_properties_absent:
  "\<forall>p \<in> set props. k \<noteq> PStr (py_str (fst p)) \<Longrightarrow> PropertiesConfig_get c k = None \<Longrightarrow>
   PropertiesConfig_get (from_properties_loop props c) k = None"
proof (induction props arbitrary: c)
  case Nil
  then show ?case by simp
next
  case (Cons p props)
  have "PropertiesConfig_get
          (PropertiesConfig_put c (PStr (py_str (fst p))) (PStr (py_str (snd p)))) k = None"
    using Cons.prems by (cases k) (auto simp: PropertiesConfig_put_def)
  with Cons show ?case by simp
qed

lemma busy_world_queue: "queues busy_world r = [main_file ''a.dat'', main_file ''b.dat'']"
  by (simp add: busy_world_def)

lemma busy_world_token: "\<not> tokens busy_world r"
  by (simp add: busy_world_def main_world_def StorageFactory_register_def fresh_world_def)

lemma busy_world_trace: "trace busy_world = [ClientCreated main_client]"
  by (simp add: busy_world_def open_main_world_trace)

lemma busy_world_client: "ss_client (storages busy_world 0) = Some main_client"
  by (simp add: busy_world_def open_main_world_client)

lemma busy_world_config: "configs busy_world r = main_config"
  by (simp add: busy_world_def main_world_config)

lemma broken_world_args:
  "client_args (configs broken_world (ss_config (storages broken_world 0)))
     = main_client\<lparr>endpoint_url := Some ''not a url''\<rparr>"
  by (simp add: broken_world_def broken_config_def client_args_def main_client_def cfg_defs)

lemma broken_world_refused:
  "client_raises example_runtime
     (client_args (configs broken_world (ss_config (storages broken_world 0)))) = Some ValueError"
  by (simp add: broken_world_args example_runtime_def)

lemma broken_world_client: "ss_client (storages broken_world 0) = Some main_client"
  by (simp add: broken_world_def busy_world_client)

lemma broken_world_provider:
  "PropertiesConfig_get (configs broken_world (sf_config (factories broken_world 0)))
     (PStr ''files.provider'') = Some ''s3''"
  by (simp add: broken_world_def broken_config_def cfg_defs)

lemma broken_world_registered: "sf_options (factories broken_world 0) ''s3'' = Some 0"
  by (simp add: broken_world_def busy_world_def main_world_registered)

section \<open>The key of a file\<close>

text \<open>
  C3. The key of a file is the prefix configured under \<^verbatim>\<open>files.<category>.key\<close>
  followed by the file name when that entry exists, and the file name alone when it does
  not. For the category \<^verbatim>\<open>"upload"\<close> and the file name \<^verbatim>\<open>"x.dat"\<close>: with
  \<^verbatim>\<open>files.upload.key = "upload/"\<close> the key is \<^verbatim>\<open>"upload/x.dat"\<close>, with an empty
  configuration it is \<^verbatim>\<open>"x.dat"\<close>.
\<close>

theorem File_key_prefix:
  "(PropertiesConfig_get c (PStr (''files.'' @ py_str (f_filetype f) @ ''.key'')) = Some p
      \<longrightarrow> File_key c f = p @ f_filename f)
   \<and> (PropertiesConfig_get c (PStr (''files.'' @ py_str (f_filetype f) @ ''.key'')) = None
      \<longrightarrow> File_key c f = f_filename f)
   \<and> File_key
        (PropertiesConfig_put PropertiesConfig_init (PStr ''files.upload.key'') (PStr ''upload/''))
        \<lparr>f_config = r, f_filepath = fp, f_filetype = PStr ''upload'', f_filename = ''x.dat''\<rparr>
       = ''upload/x.dat''
   \<and> File_key PropertiesConfig_init
        \<lparr>f_config = r, f_filepath = fp, f_filetype = PStr ''upload'', f_filename = ''x.dat''\<rparr>
       = ''x.dat''"
  by (simp add: File_key_def PropertiesConfig_put_def PropertiesConfig_init_def)

text \<open>
  In the configuration of \<^verbatim>\<open>__main__\<close>, a file of category \<^verbatim>\<open>"upload"\<close> has a
  prefix; a file of category \<^verbatim>\<open>12\<close> has none.
\<close>

theorem File_key_prefix_witness:
  "PropertiesConfig_get main_config
      (PStr (''files.'' @ py_str (f_filetype (main_file ''0_carne_asada.dat'')) @ ''.key''))
     = Some ''upload/''
   \<and> File_key main_config (main_file ''0_carne_asada.dat'') = ''upload/0_carne_asada.dat''
   \<and> PropertiesConfig_get main_config
      (PStr (''files.'' @ py_str (f_filetype
         \<lparr>f_config = 0, f_filepath = ''p'', f_filetype = PInt 12, f_filename = ''y''\<rparr>) @ ''.key''))
     = None
   \<and> File_key main_config
        \<lparr>f_config = 0, f_filepath = ''p'', f_filetype = PInt 12, f_filename = ''y''\<rparr> = ''y''"
proof -
  have a: "PropertiesConfig_get main_config
      (PStr (''files.'' @ py_str (f_filetype (main_file ''0_carne_asada.dat'')) @ ''.key''))
     = Some ''upload/''"
    by (simp add: cfg_defs main_file_def)
  have b: "PropertiesConfig_get main_config
      (PStr (''files.'' @ py_str (f_filetype
         \<lparr>f_config = 0, f_filepath = ''p'', f_filetype = PInt 12, f_filename = ''y''\<rparr>) @ ''.key''))
     = None"
    by (simp add: cfg_defs digits10.simps)
  from a b
    File_key_prefix [of main_config "main_file ''0_carne_asada.dat''" "''upload/''"]
    File_key_prefix [of main_config
      "\<lparr>f_config = 0, f_filepath = ''p'', f_filetype = PInt 12, f_filename = ''y''\<rparr>"]
  show ?thesis by (simp add: main_file_def)
qed

section \<open>The factory\<close>

text \<open>
  C4. When the name configured under \<^verbatim>\<open>files.provider\<close> has no engine registered
  under it (or no name is configured), \<^verbatim>\<open>build()\<close> raises its error,
  \<^verbatim>\<open>NotImplementedError\<close>, and leaves the store as it was: no engine is opened, no
  client is created or closed.
\<close>

theorem build_unregistered:
  assumes "\<forall>name. PropertiesConfig_get (configs w (sf_config (factories w fr)))
                     (PStr ''files.provider'') = Some name
                 \<longrightarrow> sf_options (factories w fr) name = None"
  shows "StorageFactory_build rt fr w = (Inl NotImplementedError, w)"
proof (cases "PropertiesConfig_get (configs w (sf_config (factories w fr)))
                (PStr ''files.provider'')")
  case None
  then show ?thesis by (simp add: StorageFactory_build_def)
next
  case (Some name)
  with assms have "sf_options (factories w fr) name = None" by simp
  with Some show ?thesis by (simp add: StorageFactory_build_def)
qed

text \<open>
  The configuration of \<^verbatim>\<open>__main__\<close> names \<^verbatim>\<open>"s3"\<close>; before
  \<^verbatim>\<open>register\<close> nothing is registered.
\<close>

theorem build_unregistered_witness:
  "PropertiesConfig_get
      (configs (fresh_world main_config) (sf_config (factories (fresh_world main_config) 0)))
      (PStr ''files.provider'') = Some ''s3''
   \<and> sf_options (factories (fresh_world main_config) 0) ''s3'' = None
   \<and> StorageFactory_build example_runtime 0 (fresh_world main_config)
       = (Inl NotImplementedError, fresh_world main_config)
   \<and> opens (trace (snd (StorageFactory_build example_runtime 0 (fresh_world main_config)))) = 0"
proof -
  have a: "PropertiesConfig_get
      (configs (fresh_world main_config) (sf_config (factories (fresh_world main_config) 0)))
      (PStr ''files.provider'') = Some ''s3''"
    by (simp add: fresh_world_def main_config_provider)
  have b: "sf_options (factories (fresh_world main_config) 0) ''s3'' = None"
    by (simp add: fresh_world_def StorageFactory_init_def)
  have c: "\<forall>name. PropertiesConfig_get
      (configs (fresh_world main_config) (sf_config (factories (fresh_world main_config) 0)))
      (PStr ''files.provider'') = Some name
        \<longrightarrow> sf_options (factories (fresh_world main_config) 0) name = None"
    using a b by simp
  have d: "trace (fresh_world main_config) = []" by (simp add: fresh_world_def)
  from a b d build_unregistered [OF c, of example_runtime] show ?thesis by simp
qed

text \<open>
  C7, as the program has it. \<^verbatim>\<open>register\<close> stores the engine under its identifier,
  replacing whatever was stored there: of two engines with the same identifier, the one
  registered last is found. After \<^verbatim>\<open>register\<close>, when \<^verbatim>\<open>files.provider\<close> is that
  engine's identifier, \<^verbatim>\<open>build()\<close> calls \<^verbatim>\<open>open()\<close> on that engine. When
  \<^verbatim>\<open>boto3.client\<close> accepts the three connection entries of the engine's configuration,
  \<^verbatim>\<open>build()\<close> returns exactly that engine, which then holds the client made from those
  entries, and \<^verbatim>\<open>open()\<close> has run once. When \<^verbatim>\<open>boto3.client\<close> raises, the
  exception leaves \<^verbatim>\<open>build()\<close>, no engine is returned and the engine is left closed.
  With the engines \<^verbatim>\<open>"a"\<close> and \<^verbatim>\<open>"b"\<close> registered, \<^verbatim>\<open>files.provider = "b"\<close> and the
  connection entries of \<^verbatim>\<open>__main__\<close>, \<^verbatim>\<open>build()\<close> returns the engine whose identifier
  is \<^verbatim>\<open>"b"\<close>, opened once.
\<close>

theorem register_then_build:
  "sf_options (factories (StorageFactory_register fr sr w) fr)
     = (sf_options (factories w fr))(ss_identifier (storages w sr) \<mapsto> sr)
   \<and> (ss_identifier (storages w s2) = ss_identifier (storages w s1) \<longrightarrow>
        sf_options (factories (StorageFactory_register fr s2 (StorageFactory_register fr s1 w)) fr)
          (ss_identifier (storages w s1)) = Some s2)
   \<and> (PropertiesConfig_get (configs w (sf_config (factories w fr))) (PStr ''files.provider'')
          = Some (ss_identifier (storages w sr))
        \<and> client_raises rt
          \<lparr>aws_access_key_id =
              PropertiesConfig_get (configs w (ss_config (storages w sr))) (PStr ''aws_access_key_id''),
            aws_secret_access_key =
              PropertiesConfig_get (configs w (ss_config (storages w sr))) (PStr ''aws_secret_access_key''),
            endpoint_url =
              PropertiesConfig_get (configs w (ss_config (storages w sr))) (PStr ''endpoint_url'')\<rparr> = None \<longrightarrow>
        StorageFactory_build rt fr (StorageFactory_register fr sr w)
          = (Inr sr, snd (SimpleStorage_open rt sr (StorageFactory_register fr sr w)))
        \<and> ss_client (storages (snd (StorageFactory_build rt fr (StorageFactory_register fr sr w))) sr)
          = Some
          \<lparr>aws_access_key_id =
              PropertiesConfig_get (configs w (ss_config (storages w sr))) (PStr ''aws_access_key_id''),
            aws_secret_access_key =
              PropertiesConfig_get (configs w (ss_config (storages w sr))) (PStr ''aws_secret_access_key''),
            endpoint_url =
              PropertiesConfig_get (configs w (ss_config (storages w sr))) (PStr ''endpoint_url'')\<rparr>
        \<and> opens (trace (snd (StorageFactory_build rt fr (StorageFactory_register fr sr w))))
          = Suc (opens (trace w)))
   \<and> (PropertiesConfig_get (configs w (sf_config (factories w fr))) (PStr ''files.provider'')
          = Some (ss_identifier (storages w sr))
        \<and> client_raises rt
          \<lparr>aws_access_key_id =
              PropertiesConfig_get (configs w (ss_config (storages w sr))) (PStr ''aws_access_key_id''),
            aws_secret_access_key =
              PropertiesConfig_get (configs w (ss_config (storages w sr))) (PStr ''aws_secret_access_key''),
            endpoint_url =
              PropertiesConfig_get (configs w (ss_config (storages w sr))) (PStr ''endpoint_url'')\<rparr> = Some e \<longrightarrow>
        fst (StorageFactory_build rt fr (StorageFactory_register fr sr w)) = Inl e
        \<and> ss_client (storages (snd (StorageFactory_build rt fr (StorageFactory_register fr sr w))) sr)
          = None)
   \<and> fst (StorageFactory_build example_runtime 0 ab_world) = Inr 2
   \<and> ss_identifier (storages (snd (StorageFactory_build example_runtime 0 ab_world)) 2) = ''b''
   \<and> ss_client (storages (snd (StorageFactory_build example_runtime 0 ab_world)) 2)
       = Some main_client
   \<and> ss_client (storages (snd (StorageFactory_build example_runtime 0 ab_world)) 1) = None
   \<and> opens (trace (snd (StorageFactory_build example_runtime 0 ab_world))) = 1"
proof -
  let ?w = "StorageFactory_register fr sr w"
  let ?args = "client_args (configs w (ss_config (storages w sr)))"
  have args: "?args =
          \<lparr>aws_access_key_id =
              PropertiesConfig_get (configs w (ss_config (storages w sr))) (PStr ''aws_access_key_id''),
            aws_secret_access_key =
              PropertiesConfig_get (configs w (ss_config (storages w sr))) (PStr ''aws_secret_access_key''),
            endpoint_url =
              PropertiesConfig_get (configs w (ss_config (storages w sr))) (PStr ''endpoint_url'')\<rparr>"
    by (simp add: client_args_def)
  have reg: "sf_options (factories ?w fr)
     = (sf_options (factories w fr))(ss_identifier (storages w sr) \<mapsto> sr)"
    by (simp add: StorageFactory_register_def)
  have twice: "ss_identifier (storages w s2) = ss_identifier (storages w s1) \<longrightarrow>
        sf_options (factories (StorageFactory_register fr s2 (StorageFactory_register fr s1 w)) fr)
          (ss_identifier (storages w s1)) = Some s2"
    by (simp add: StorageFactory_register_def)
  have fields: "configs ?w = configs w" "storages ?w = storages w" "trace ?w = trace w"
      "sf_config (factories ?w fr) = sf_config (factories w fr)"
    by (simp_all add: StorageFactory_register_def)
  have build: "PropertiesConfig_get (configs w (sf_config (factories w fr)))
        (PStr ''files.provider'') = Some (ss_identifier (storages w sr)) \<Longrightarrow>
      StorageFactory_build rt fr ?w =
        (case client_raises rt ?args of Some e \<Rightarrow> Inl e | None \<Rightarrow> Inr sr,
         snd (SimpleStorage_open rt sr ?w))"
    using build_registered [of ?w fr "ss_identifier (storages w sr)" sr rt]
    by (simp add: fields reg)
  have ok: "PropertiesConfig_get (configs w (sf_config (factories w fr))) (PStr ''files.provider'')
          = Some (ss_identifier (storages w sr))
        \<and> client_raises rt ?args = None \<longrightarrow>
        StorageFactory_build rt fr ?w = (Inr sr, snd (SimpleStorage_open rt sr ?w))
        \<and> ss_client (storages (snd (StorageFactory_build rt fr ?w)) sr) = Some ?args
        \<and> opens (trace (snd (StorageFactory_build rt fr ?w))) = Suc (opens (trace w))"
    using build by (simp add: open_client fields)
  have bad: "PropertiesConfig_get (configs w (sf_config (factories w fr))) (PStr ''files.provider'')
          = Some (ss_identifier (storages w sr))
        \<and> client_raises rt ?args = Some e \<longrightarrow>
        fst (StorageFactory_build rt fr ?w) = Inl e
        \<and> ss_client (storages (snd (StorageFactory_build rt fr ?w)) sr) = None"
    using build by (simp add: open_client fields)
  have ab_cfg: "configs ab_world r = PropertiesConfig_put main_config (PStr ''files.provider'') (PStr ''b'')"
      "ss_config (storages ab_world r) = 0" "trace ab_world = []"
      "ss_client (storages ab_world r) = None"
      "ss_identifier (storages ab_world 2) = ''b''"
      "sf_options (factories ab_world 0) ''b'' = Some 2"
      "sf_config (factories ab_world 0) = 0" for r
    by (simp_all add: ab_world_def StorageFactory_register_def fresh_world_def
         StorageFactory_init_def)
  have ab_args: "client_args (configs ab_world (ss_config (storages ab_world 2))) = main_client"
    by (simp add: ab_cfg client_args_def main_client_def cfg_defs)
  have ab: "StorageFactory_build example_runtime 0 ab_world
      = (Inr 2, snd (SimpleStorage_open example_runtime 2 ab_world))"
    using build_registered [of ab_world 0 "''b''" 2 example_runtime]
    by (simp add: ab_args main_client_accepted ab_cfg(6)) (simp add: ab_cfg cfg_defs)
  have ab_id: "ss_identifier (storages (snd (SimpleStorage_open example_runtime 2 ab_world)) 2) = ''b''"
    by (simp add: ab_cfg)
  have ab_cl: "ss_client (storages (snd (SimpleStorage_open example_runtime 2 ab_world)) 2)
      = Some main_client"
    by (simp add: open_client ab_args main_client_accepted)
  have ab_other: "ss_client (storages (snd (SimpleStorage_open example_runtime 2 ab_world)) 1) = None"
    by (simp add: open_other_client ab_cfg)
  have ab_opens: "opens (trace (snd (SimpleStorage_open example_runtime 2 ab_world))) = 1"
    by (simp add: ab_cfg)
  have s1: "fst (StorageFactory_build example_runtime 0 ab_world) = Inr 2"
    by (simp add: ab)
  have s2: "ss_identifier (storages (snd (StorageFactory_build example_runtime 0 ab_world)) 2)
      = ''b''"
    unfolding ab by (simp add: ab_cfg)
  have s3: "ss_client (storages (snd (StorageFactory_build example_runtime 0 ab_world)) 2)
      = Some main_client"
    unfolding ab using ab_cl by simp
  have s4: "ss_client (storages (snd (StorageFactory_build example_runtime 0 ab_world)) 1) = None"
    unfolding ab using ab_other by simp
  have s5: "opens (trace (snd (StorageFactory_build example_runtime 0 ab_world))) = 1"
    unfolding ab using ab_opens by simp
  note ok' = ok [unfolded args]
  note bad' = bad [unfolded args]
  from reg twice ok' bad' s1 s2 s3 s4 s5 show ?thesis by blast
qed

text \<open>
  The registration and the build of \<^verbatim>\<open>__main__\<close>, and the same with an endpoint
  that is no URL.
\<close>

theorem register_then_build_witness:
  "PropertiesConfig_get
      (configs (fresh_world main_config) (sf_config (factories (fresh_world main_config) 0)))
      (PStr ''files.provider'') = Some (ss_identifier (storages (fresh_world main_config) 0))
   \<and> client_raises example_runtime main_client = None
   \<and> StorageFactory_build example_runtime 0 main_world
       = (Inr 0, snd (SimpleStorage_open example_runtime 0 main_world))
   \<and> ss_client (storages (snd (StorageFactory_build example_runtime 0 main_world)) 0)
       = Some main_client
   \<and> opens (trace (snd (StorageFactory_build example_runtime 0 main_world))) = 1
   \<and> PropertiesConfig_get
      (configs (fresh_world broken_config) (sf_config (factories (fresh_world broken_config) 0)))
      (PStr ''files.provider'') = Some (ss_identifier (storages (fresh_world broken_config) 0))
   \<and> client_raises example_runtime (main_client\<lparr>endpoint_url := Some ''not a url''\<rparr>)
       = Some ValueError
   \<and> fst (StorageFactory_build example_runtime 0
           (StorageFactory_register 0 0 (fresh_world broken_config))) = Inl ValueError
   \<and> ss_client (storages (snd (StorageFactory_build example_runtime 0
           (StorageFactory_register 0 0 (fresh_world broken_config)))) 0) = None"
proof -
  let ?g = "fresh_world main_config" and ?b = "fresh_world broken_config"
  have pg: "PropertiesConfig_get (configs ?g (sf_config (factories ?g 0)))
      (PStr ''files.provider'') = Some (ss_identifier (storages ?g 0))"
    by (simp add: fresh_world_def main_config_provider SimpleStorage_init_def)
  have pb: "PropertiesConfig_get (configs ?b (sf_config (factories ?b 0)))
      (PStr ''files.provider'') = Some (ss_identifier (storages ?b 0))"
    by (simp add: fresh_world_def broken_config_def cfg_defs SimpleStorage_init_def)
  have ag: "\<lparr>aws_access_key_id =
              PropertiesConfig_get (configs ?g (ss_config (storages ?g 0))) (PStr ''aws_access_key_id''),
            aws_secret_access_key =
              PropertiesConfig_get (configs ?g (ss_config (storages ?g 0))) (PStr ''aws_secret_access_key''),
            endpoint_url =
              PropertiesConfig_get (configs ?g (ss_config (storages ?g 0))) (PStr ''endpoint_url'')\<rparr>
          = main_client"
    by (simp add: fresh_world_def main_client_def cfg_defs)
  have ab: "\<lparr>aws_access_key_id =
              PropertiesConfig_get (configs ?b (ss_config (storages ?b 0))) (PStr ''aws_access_key_id''),
            aws_secret_access_key =
              PropertiesConfig_get (configs ?b (ss_config (storages ?b 0))) (PStr ''aws_secret_access_key''),
            endpoint_url =
              PropertiesConfig_get (configs ?b (ss_config (storages ?b 0))) (PStr ''endpoint_url'')\<rparr>
          = main_client\<lparr>endpoint_url := Some ''not a url''\<rparr>"
    by (simp add: fresh_world_def broken_config_def main_client_def cfg_defs)
  have rb: "client_raises example_runtime (main_client\<lparr>endpoint_url := Some ''not a url''\<rparr>)
       = Some ValueError"
    by (simp add: example_runtime_def)
  have tg: "trace ?g = []" by (simp add: fresh_world_def)
  note G = register_then_build [of 0 0 ?g 0 0 example_runtime, unfolded ag, folded main_world_def]
  note B = register_then_build [of 0 0 ?b 0 0 example_runtime ValueError, unfolded ab]
  have g1: "StorageFactory_build example_runtime 0 main_world
       = (Inr 0, snd (SimpleStorage_open example_runtime 0 main_world))"
    using G pg main_client_accepted by blast
  have g2: "ss_client (storages (snd (StorageFactory_build example_runtime 0 main_world)) 0)
       = Some main_client"
    using G pg main_client_accepted by blast
  have "opens (trace (snd (StorageFactory_build example_runtime 0 main_world)))
       = Suc (opens (trace ?g))"
    using G pg main_client_accepted by blast
  then have g3: "opens (trace (snd (StorageFactory_build example_runtime 0 main_world))) = 1"
    by (simp add: tg)
  have b1: "fst (StorageFactory_build example_runtime 0 (StorageFactory_register 0 0 ?b))
       = Inl ValueError"
    using B pb rb by blast
  have b2: "ss_client (storages (snd (StorageFactory_build example_runtime 0
           (StorageFactory_register 0 0 ?b))) 0) = None"
    using B pb rb by blast
  from pg main_client_accepted g1 g2 g3 pb rb b1 b2 show ?thesis by blast
qed

text \<open>
  C7 as stated, with \<^verbatim>\<open>build()\<close> returning the registered engine whenever its
  identifier is the configured provider, fails: with the engine \<^verbatim>\<open>"s3"\<close> registered,
  \<^verbatim>\<open>files.provider = "s3"\<close> and \<^verbatim>\<open>endpoint_url\<close> a string that is no URL,
  \<^verbatim>\<open>open()\<close> raises \<^verbatim>\<open>ValueError\<close> and \<^verbatim>\<open>build()\<close> returns no engine.
\<close>

theorem build_returns_engine_counterexample:
  "PropertiesConfig_get (configs broken_world (sf_config (factories broken_world 0)))
      (PStr ''files.provider'') = Some ''s3''
   \<and> sf_options (factories broken_world 0) ''s3'' = Some 0
   \<and> ss_identifier (storages broken_world 0) = ''s3''
   \<and> PropertiesConfig_get (configs broken_world (ss_config (storages broken_world 0)))
      (PStr ''endpoint_url'') = Some ''not a url''
   \<and> fst (StorageFactory_build example_runtime 0 broken_world) = Inl ValueError
   \<and> fst (StorageFactory_build example_runtime 0 broken_world) \<noteq> Inr 0"
proof -
  have i: "ss_identifier (storages broken_world 0) = ''s3''"
    by (simp add: broken_world_def busy_world_def main_world_def StorageFactory_register_def
          fresh_world_def SimpleStorage_init_def)
  have e: "PropertiesConfig_get (configs broken_world (ss_config (storages broken_world 0)))
      (PStr ''endpoint_url'') = Some ''not a url''"
    by (simp add: broken_world_def broken_config_def cfg_defs)
  have b: "fst (StorageFactory_build example_runtime 0 broken_world) = Inl ValueError"
    by (simp add: build_registered [OF broken_world_provider broken_world_registered]
          broken_world_refused)
  from broken_world_provider broken_world_registered i e b show ?thesis by simp
qed

section \<open>Opening and closing an engine\<close>

text \<open>
  C8, as the program has it. \<^verbatim>\<open>open()\<close> first closes the client the engine holds, if
  any, and then calls \<^verbatim>\<open>boto3.client\<close> with the entries \<^verbatim>\<open>aws_access_key_id\<close>,
  \<^verbatim>\<open>aws_secret_access_key\<close> and \<^verbatim>\<open>endpoint_url\<close> of the engine's configuration. When
  boto3 accepts them, \<^verbatim>\<open>open()\<close> raises nothing and the engine holds the client made
  from exactly those three entries, whatever it held before, so a second \<^verbatim>\<open>open()\<close>
  leaves the engines as the first did; on an engine that held a client the calls are
  the close of that client followed by the creation of the new one. When boto3 raises,
  the exception leaves \<^verbatim>\<open>open()\<close> and the engine is left closed. \<^verbatim>\<open>close()\<close> on an
  engine without a client changes nothing, and a second \<^verbatim>\<open>close()\<close> changes nothing
  more.
\<close>

theorem open_close_idempotent:
  "(client_raises rt
          \<lparr>aws_access_key_id =
              PropertiesConfig_get (configs w (ss_config (storages w r))) (PStr ''aws_access_key_id''),
            aws_secret_access_key =
              PropertiesConfig_get (configs w (ss_config (storages w r))) (PStr ''aws_secret_access_key''),
            endpoint_url =
              PropertiesConfig_get (configs w (ss_config (storages w r))) (PStr ''endpoint_url'')\<rparr> = None \<longrightarrow>
      fst (SimpleStorage_open rt r w) = None
      \<and> ss_client (storages (snd (SimpleStorage_open rt r w)) r)
        = Some
          \<lparr>aws_access_key_id =
              PropertiesConfig_get (configs w (ss_config (storages w r))) (PStr ''aws_access_key_id''),
            aws_secret_access_key =
              PropertiesConfig_get (configs w (ss_config (storages w r))) (PStr ''aws_secret_access_key''),
            endpoint_url =
              PropertiesConfig_get (configs w (ss_config (storages w r))) (PStr ''endpoint_url'')\<rparr>
      \<and> fst (SimpleStorage_open rt r (snd (SimpleStorage_open rt r w))) = None
      \<and> storages (snd (SimpleStorage_open rt r (snd (SimpleStorage_open rt r w))))
        = storages (snd (SimpleStorage_open rt r w)))
   \<and> (ss_client (storages w r) = Some cl
      \<and> client_raises rt
          \<lparr>aws_access_key_id =
              PropertiesConfig_get (configs w (ss_config (storages w r))) (PStr ''aws_access_key_id''),
            aws_secret_access_key =
              PropertiesConfig_get (configs w (ss_config (storages w r))) (PStr ''aws_secret_access_key''),
            endpoint_url =
              PropertiesConfig_get (configs w (ss_config (storages w r))) (PStr ''endpoint_url'')\<rparr> = None \<longrightarrow>
      trace (snd (SimpleStorage_open rt r w)) =
        trace w @
          [ClientClosed cl,
           ClientCreated
          \<lparr>aws_access_key_id =
              PropertiesConfig_get (configs w (ss_config (storages w r))) (PStr ''aws_access_key_id''),
            aws_secret_access_key =
              PropertiesConfig_get (configs w (ss_config (storages w r))) (PStr ''aws_secret_access_key''),
            endpoint_url =
              PropertiesConfig_get (configs w (ss_config (storages w r))) (PStr ''endpoint_url'')\<rparr>])
   \<and> (client_raises rt
          \<lparr>aws_access_key_id =
              PropertiesConfig_get (configs w (ss_config (storages w r))) (PStr ''aws_access_key_id''),
            aws_secret_access_key =
              PropertiesConfig_get (configs w (ss_config (storages w r))) (PStr ''aws_secret_access_key''),
            endpoint_url =
              PropertiesConfig_get (configs w (ss_config (storages w r))) (PStr ''endpoint_url'')\<rparr> = Some e \<longrightarrow>
      fst (SimpleStorage_open rt r w) = Some e
      \<and> ss_client (storages (snd (SimpleStorage_open rt r w)) r) = None)
   \<and> (ss_client (storages w r) = None \<longrightarrow> SimpleStorage_close r w = w)
   \<and> SimpleStorage_close r (SimpleStorage_close r w) = SimpleStorage_close r w"
proof -
  let ?args = "client_args (configs w (ss_config (storages w r)))"
  let ?w1 = "snd (SimpleStorage_open rt r w)"
  have args: "?args =
          \<lparr>aws_access_key_id =
              PropertiesConfig_get (configs w (ss_config (storages w r))) (PStr ''aws_access_key_id''),
            aws_secret_access_key =
              PropertiesConfig_get (configs w (ss_config (storages w r))) (PStr ''aws_secret_access_key''),
            endpoint_url =
              PropertiesConfig_get (configs w (ss_config (storages w r))) (PStr ''endpoint_url'')\<rparr>"
    by (simp add: client_args_def)
  have same: "client_args (configs ?w1 (ss_config (storages ?w1 r))) = ?args"
    by simp
  have a: "client_raises rt ?args = None \<longrightarrow>
      fst (SimpleStorage_open rt r w) = None
      \<and> ss_client (storages ?w1 r) = Some ?args
      \<and> fst (SimpleStorage_open rt r ?w1) = None
      \<and> storages (snd (SimpleStorage_open rt r ?w1)) = storages ?w1"
  proof
    assume ok: "client_raises rt ?args = None"
    have 1: "fst (SimpleStorage_open rt r w) = None" by (simp add: open_result ok)
    have 2: "ss_client (storages ?w1 r) = Some ?args" by (simp add: open_client ok)
    have 3: "fst (SimpleStorage_open rt r ?w1) = None" by (simp add: open_result ok)
    have 4: "storages (snd (SimpleStorage_open rt r ?w1)) = storages ?w1"
      using ok
      by (cases "ss_client (storages w r)")
        (simp_all add: SimpleStorage_open_def SimpleStorage_close_def Let_def)
    from 1 2 3 4 show "fst (SimpleStorage_open rt r w) = None
      \<and> ss_client (storages ?w1 r) = Some ?args
      \<and> fst (SimpleStorage_open rt r ?w1) = None
      \<and> storages (snd (SimpleStorage_open rt r ?w1)) = storages ?w1"
      by blast
  qed
  have b: "ss_client (storages w r) = Some cl \<and> client_raises rt ?args = None \<longrightarrow>
      trace ?w1 = trace w @ [ClientClosed cl, ClientCreated ?args]"
    by (simp add: open_trace)
  have c: "client_raises rt ?args = Some e \<longrightarrow>
      fst (SimpleStorage_open rt r w) = Some e \<and> ss_client (storages ?w1 r) = None"
    by (simp add: open_result open_client)
  have d: "ss_client (storages w r) = None \<longrightarrow> SimpleStorage_close r w = w"
    by (simp add: SimpleStorage_close_def)
  have e: "SimpleStorage_close r (SimpleStorage_close r w) = SimpleStorage_close r w"
    by (cases "ss_client (storages w r)") (simp_all add: SimpleStorage_close_def emit_def)
  note a' = a [unfolded args]
  note b' = b [unfolded args]
  note c' = c [unfolded args]
  from a' b' c' d e show ?thesis by blast
qed

text \<open>
  The engine of \<^verbatim>\<open>__main__\<close>: closed after \<^verbatim>\<open>register\<close>, open after one
  \<^verbatim>\<open>open()\<close>; a second \<^verbatim>\<open>open()\<close> closes the first client and creates another;
  and with an endpoint that is no URL \<^verbatim>\<open>open()\<close> raises and leaves it closed.
\<close>

theorem open_close_idempotent_witness:
  "client_raises example_runtime main_client = None
   \<and> ss_client (storages main_world 0) = None
   \<and> SimpleStorage_close 0 main_world = main_world
   \<and> fst (SimpleStorage_open example_runtime 0 main_world) = None
   \<and> ss_client (storages (snd (SimpleStorage_open example_runtime 0 main_world)) 0)
       = Some main_client
   \<and> ss_client (storages busy_world 0) = Some main_client
   \<and> trace (snd (SimpleStorage_open example_runtime 0 busy_world))
       = [ClientCreated main_client, ClientClosed main_client, ClientCreated main_client]
   \<and> ss_client (storages (snd (SimpleStorage_open example_runtime 0 busy_world)) 0)
       = Some main_client
   \<and> client_raises example_runtime (main_client\<lparr>endpoint_url := Some ''not a url''\<rparr>)
       = Some ValueError
   \<and> fst (SimpleStorage_open example_runtime 0 broken_world) = Some ValueError
   \<and> ss_client (storages (snd (SimpleStorage_open example_runtime 0 broken_world)) 0) = None"
proof -
  have am: "\<lparr>aws_access_key_id = PropertiesConfig_get
              (configs main_world (ss_config (storages main_world 0))) (PStr ''aws_access_key_id''),
            aws_secret_access_key = PropertiesConfig_get
              (configs main_world (ss_config (storages main_world 0))) (PStr ''aws_secret_access_key''),
            endpoint_url = PropertiesConfig_get
              (configs main_world (ss_config (storages main_world 0))) (PStr ''endpoint_url'')\<rparr>
          = main_client"
    using main_client_args by (simp add: client_args_def main_world_config)
  have ab: "\<lparr>aws_access_key_id = PropertiesConfig_get
              (configs busy_world (ss_config (storages busy_world 0))) (PStr ''aws_access_key_id''),
            aws_secret_access_key = PropertiesConfig_get
              (configs busy_world (ss_config (storages busy_world 0))) (PStr ''aws_secret_access_key''),
            endpoint_url = PropertiesConfig_get
              (configs busy_world (ss_config (storages busy_world 0))) (PStr ''endpoint_url'')\<rparr>
          = main_client"
    using main_client_args by (simp add: client_args_def busy_world_config)
  have ax: "\<lparr>aws_access_key_id = PropertiesConfig_get
              (configs broken_world (ss_config (storages broken_world 0))) (PStr ''aws_access_key_id''),
            aws_secret_access_key = PropertiesConfig_get
              (configs broken_world (ss_config (storages broken_world 0))) (PStr ''aws_secret_access_key''),
            endpoint_url = PropertiesConfig_get
              (configs broken_world (ss_config (storages broken_world 0))) (PStr ''endpoint_url'')\<rparr>
          = main_client\<lparr>endpoint_url := Some ''not a url''\<rparr>"
    using broken_world_args by (simp add: client_args_def)
  have rx: "client_raises example_runtime (main_client\<lparr>endpoint_url := Some ''not a url''\<rparr>)
       = Some ValueError"
    using broken_world_refused by (simp add: broken_world_args)
  note M = open_close_idempotent [of example_runtime main_world 0, unfolded am]
  note B = open_close_idempotent [of example_runtime busy_world 0 main_client, unfolded ab]
  note X = open_close_idempotent [of example_runtime broken_world 0 _ ValueError, unfolded ax]
  have m1: "SimpleStorage_close 0 main_world = main_world"
    using M main_world_closed by blast
  have m2: "fst (SimpleStorage_open example_runtime 0 main_world) = None"
    using M main_client_accepted by blast
  have m3: "ss_client (storages (snd (SimpleStorage_open example_runtime 0 main_world)) 0)
       = Some main_client"
    using M main_client_accepted by blast
  have "trace (snd (SimpleStorage_open example_runtime 0 busy_world))
       = trace busy_world @ [ClientClosed main_client, ClientCreated main_client]"
    using B busy_world_client main_client_accepted by blast
  then have b1: "trace (snd (SimpleStorage_open example_runtime 0 busy_world))
       = [ClientCreated main_client, ClientClosed main_client, ClientCreated main_client]"
    by (simp add: busy_world_trace)
  have b2: "ss_client (storages (snd (SimpleStorage_open example_runtime 0 busy_world)) 0)
       = Some main_client"
    using B main_client_accepted by blast
  have x1: "fst (SimpleStorage_open example_runtime 0 broken_world) = Some ValueError"
    using X rx by blast
  have x2: "ss_client (storages (snd (SimpleStorage_open example_runtime 0 broken_world)) 0) = None"
    using X rx by blast
  from main_client_accepted main_world_closed m1 m2 m3 busy_world_client b1 b2 rx x1 x2
  show ?thesis by blast
qed

text \<open>
  C8 as stated, with \<^verbatim>\<open>open()\<close> on an open handle always establishing a fresh
  connection, fails: on the open engine of \<^verbatim>\<open>__main__\<close>, once \<^verbatim>\<open>endpoint_url\<close> is a
  string that is no URL, \<^verbatim>\<open>open()\<close> closes the client, raises \<^verbatim>\<open>ValueError\<close> and
  leaves the engine closed.
\<close>

theorem open_reestablishes_counterexample:
  "ss_client (storages broken_world 0) = Some main_client
   \<and> PropertiesConfig_get (configs broken_world (ss_config (storages broken_world 0)))
      (PStr ''endpoint_url'') = Some ''not a url''
   \<and> fst (SimpleStorage_open example_runtime 0 broken_world) = Some ValueError
   \<and> ss_client (storages (snd (SimpleStorage_open example_runtime 0 broken_world)) 0) = None
   \<and> trace (snd (SimpleStorage_open example_runtime 0 broken_world))
       = [ClientCreated main_client, ClientClosed main_client,
          ClientRefused (main_client\<lparr>endpoint_url := Some ''not a url''\<rparr>) ValueError]"
proof -
  have e: "PropertiesConfig_get (configs broken_world (ss_config (storages broken_world 0)))
      (PStr ''endpoint_url'') = Some ''not a url''"
    by (simp add: broken_world_def broken_config_def cfg_defs)
  have r: "fst (SimpleStorage_open example_runtime 0 broken_world) = Some ValueError"
    by (simp add: open_result broken_world_refused)
  have c: "ss_client (storages (snd (SimpleStorage_open example_runtime 0 broken_world)) 0) = None"
    by (simp add: open_client broken_world_refused)
  have tb: "trace broken_world = [ClientCreated main_client]"
    by (simp add: broken_world_def busy_world_trace)
  have t: "trace (snd (SimpleStorage_open example_runtime 0 broken_world))
       = [ClientCreated main_client, ClientClosed main_client,
          ClientRefused (main_client\<lparr>endpoint_url := Some ''not a url''\<rparr>) ValueError]"
    by (simp add: open_trace broken_world_refused broken_world_client tb)
      (simp add: broken_world_args)
  from broken_world_client e r c t show ?thesis by blast
qed

section \<open>The configuration and its defaults\<close>

text \<open>
  C10. After \<^verbatim>\<open>put(key, value)\<close>, \<^verbatim>\<open>get(str(key))\<close> is \<^verbatim>\<open>str(value)\<close>. In a
  configuration built by any sequence of \<^verbatim>\<open>put\<close>s, \<^verbatim>\<open>get\<close> of a key that is the
  string of no key put returns \<^verbatim>\<open>None\<close>. That \<^verbatim>\<open>None\<close> selects the defaults: without
  \<^verbatim>\<open>worker.threads\<close> the manager has 1 thread, without \<^verbatim>\<open>worker.join.timeout\<close> its
  join timeout is 60, without \<^verbatim>\<open>worker.timeout\<close> a worker's poll interval is the
  float 0.2; and a manager is constructed when both of its entries are absent.
\<close>

theorem config_put_get_defaults:
  "PropertiesConfig_get (PropertiesConfig_put c key val) (PStr (py_str key)) = Some (py_str val)
   \<and> ((\<forall>p \<in> set props. k \<noteq> PStr (py_str (fst p))) \<longrightarrow>
        PropertiesConfig_get (from_properties props) k = None)
   \<and> (PropertiesConfig_get (configs w config) (PStr ''worker.threads'') = None \<and>
      PropertiesConfig_get (configs w config) (PStr ''worker.join.timeout'') = None \<longrightarrow>
        Manager_init rt config q tok fr w =
          Inr \<lparr>m_config = config, m_worker_queue = q, m_cancellation_token = tok,
                m_factory = fr, m_workers = [], m_number_of_threads = 1, m_join_timeout = 60\<rparr>)
   \<and> (PropertiesConfig_get (configs w config) (PStr ''worker.threads'') = None \<and>
      Manager_init rt config q tok fr w = Inr m \<longrightarrow> m_number_of_threads m = 1)
   \<and> (PropertiesConfig_get (configs w config) (PStr ''worker.join.timeout'') = None \<and>
      Manager_init rt config q tok fr w = Inr m \<longrightarrow> m_join_timeout m = 60)
   \<and> (PropertiesConfig_get (configs w config) (PStr ''worker.timeout'') = None \<and>
      Worker_init rt config q tok fr w = (Inr wk, w') \<longrightarrow> w_timeout wk = float_0_2 rt)"
proof -
  have a: "PropertiesConfig_get (PropertiesConfig_put c key val) (PStr (py_str key)) = Some (py_str val)"
    by (simp add: PropertiesConfig_put_def)
  have b: "(\<forall>p \<in> set props. k \<noteq> PStr (py_str (fst p))) \<longrightarrow>
        PropertiesConfig_get (from_properties props) k = None"
    using from_properties_absent [of props k PropertiesConfig_init]
    by (cases k) (simp_all add: PropertiesConfig_init_def from_properties_def)
  have c: "PropertiesConfig_get (configs w config) (PStr ''worker.threads'') = None \<and>
      PropertiesConfig_get (configs w config) (PStr ''worker.join.timeout'') = None \<longrightarrow>
        Manager_init rt config q tok fr w =
          Inr \<lparr>m_config = config, m_worker_queue = q, m_cancellation_token = tok,
                m_factory = fr, m_workers = [], m_number_of_threads = 1, m_join_timeout = 60\<rparr>"
    by (simp add: Manager_init_def int_or_def)
  have d: "PropertiesConfig_get (configs w config) (PStr ''worker.threads'') = None \<and>
      Manager_init rt config q tok fr w = Inr m \<longrightarrow> m_number_of_threads m = 1"
    by (auto simp: Manager_init_def int_or_def split: sum.splits)
  have e: "PropertiesConfig_get (configs w config) (PStr ''worker.join.timeout'') = None \<and>
      Manager_init rt config q tok fr w = Inr m \<longrightarrow> m_join_timeout m = 60"
    by (auto simp: Manager_init_def int_or_def split: sum.splits)
  have f: "PropertiesConfig_get (configs w config) (PStr ''worker.timeout'') = None \<and>
      Worker_init rt config q tok fr w = (Inr wk, w') \<longrightarrow> w_timeout wk = float_0_2 rt"
  proof (cases "StorageFactory_build rt fr w")
    case (Pair res w1)
    have cfg: "configs w1 = configs w"
      using build_configs [of rt fr w] Pair by simp
    show ?thesis
      using Pair cfg by (cases res) (auto simp: Worker_init_def float_or_0_2_def)
  qed
  from a b c d e f show ?thesis by blast
qed

text \<open>
  An integer key and a Boolean value are stored as their strings. The configuration of
  \<^verbatim>\<open>__main__\<close> has no entry \<^verbatim>\<open>worker.retries\<close> and none under the integer 7. A
  configuration with the provider alone gives every default.
\<close>

theorem config_put_get_defaults_witness:
  "PropertiesConfig_get (PropertiesConfig_put PropertiesConfig_init (PInt 7) (PBool True)) (PStr ''7'')
     = Some ''True''
   \<and> PropertiesConfig_get main_config (PStr ''worker.retries'') = None
   \<and> PropertiesConfig_get main_config (PInt 7) = None
   \<and> PropertiesConfig_get (configs default_world 0) (PStr ''worker.threads'') = None
   \<and> PropertiesConfig_get (configs default_world 0) (PStr ''worker.join.timeout'') = None
   \<and> PropertiesConfig_get (configs default_world 0) (PStr ''worker.timeout'') = None
   \<and> Manager_init example_runtime 0 0 0 0 default_world =
       Inr \<lparr>m_config = 0, m_worker_queue = 0, m_cancellation_token = 0, m_factory = 0,
             m_workers = [], m_number_of_threads = 1, m_join_timeout = 60\<rparr>
   \<and> fst (Worker_init example_runtime 0 0 0 0 default_world) =
       Inr \<lparr>w_config = 0, w_worker_queue = 0, w_cancellation_token = 0, w_factory = 0,
             w_uploader = 0, w_timeout = 1 / 5\<rparr>"
proof -
  have s7: "py_str (PInt 7) = ''7''" "py_str (PBool True) = ''True''"
    by (simp_all add: digits10.simps)
  have a1: "PropertiesConfig_get (PropertiesConfig_put PropertiesConfig_init (PInt 7) (PBool True))
      (PStr ''7'') = Some ''True''"
    using config_put_get_defaults [of PropertiesConfig_init "PInt 7" "PBool True", THEN conjunct1]
    unfolding s7 .
  have absent: "\<forall>p \<in> set main_properties. PStr ''worker.retries'' \<noteq> PStr (py_str (fst p))"
      "\<forall>p \<in> set main_properties. PInt 7 \<noteq> PStr (py_str (fst p))"
    by (simp_all add: main_properties_def)
  have a2: "PropertiesConfig_get main_config (PStr ''worker.retries'') = None"
    unfolding main_config_def
    using absent(1)
      config_put_get_defaults [of PropertiesConfig_init "PInt 7" "PBool True" main_properties
        "PStr ''worker.retries''"]
    by blast
  have a3: "PropertiesConfig_get main_config (PInt 7) = None"
    unfolding main_config_def
    using absent(2)
      config_put_get_defaults [of PropertiesConfig_init "PInt 7" "PBool True" main_properties
        "PInt 7"]
    by blast
  have cfg: "configs default_world r = from_properties (take 6 main_properties)" for r
    by (simp add: default_world_def StorageFactory_register_def fresh_world_def)
  have none: "PropertiesConfig_get (configs default_world 0) (PStr ''worker.threads'') = None"
      "PropertiesConfig_get (configs default_world 0) (PStr ''worker.join.timeout'') = None"
      "PropertiesConfig_get (configs default_world 0) (PStr ''worker.timeout'') = None"
    by (simp_all add: cfg cfg_defs)
  have reg: "sf_options (factories default_world 0) ''s3'' = Some 0"
      "sf_config (factories default_world 0) = 0" "ss_config (storages default_world 0) = 0"
    by (simp_all add: default_world_def StorageFactory_register_def fresh_world_def
          SimpleStorage_init_def StorageFactory_init_def)
  have prov: "PropertiesConfig_get (configs default_world (sf_config (factories default_world 0)))
      (PStr ''files.provider'') = Some ''s3''"
    by (simp add: cfg cfg_defs)
  have acc: "client_raises example_runtime
      (client_args (configs default_world (ss_config (storages default_world 0)))) = None"
    by (simp add: cfg client_args_def example_runtime_def cfg_defs)
  have fl: "float_or_0_2 example_runtime
      (PropertiesConfig_get (configs default_world 0) (PStr ''worker.timeout''))
        = Inr (float_0_2 example_runtime)"
    using none by (simp add: float_or_0_2_def)
  note wi = Worker_init_ok [OF prov reg(1) acc fl, of 0 0]
  note T = config_put_get_defaults [of PropertiesConfig_init "PInt 7" "PBool True" main_properties
      "PStr ''worker.retries''" default_world 0 example_runtime 0 0 0
      "\<lparr>m_config = 0, m_worker_queue = 0, m_cancellation_token = 0, m_factory = 0,
             m_workers = [], m_number_of_threads = 1, m_join_timeout = 60\<rparr>"
      "\<lparr>w_config = 0, w_worker_queue = 0, w_cancellation_token = 0, w_factory = 0,
             w_uploader = 0, w_timeout = float_0_2 example_runtime\<rparr>"
      "snd (SimpleStorage_open example_runtime 0 default_world)"]
  have m: "Manager_init example_runtime 0 0 0 0 default_world =
       Inr \<lparr>m_config = 0, m_worker_queue = 0, m_cancellation_token = 0, m_factory = 0,
             m_workers = [], m_number_of_threads = 1, m_join_timeout = 60\<rparr>"
    using T none by blast
  have "w_timeout \<lparr>w_config = 0, w_worker_queue = 0, w_cancellation_token = 0, w_factory = 0,
             w_uploader = 0, w_timeout = float_0_2 example_runtime\<rparr> = float_0_2 example_runtime"
    using T none wi by blast
  have f: "float_0_2 example_runtime = 1 / 5" by (simp add: example_runtime_def)
  have w: "fst (Worker_init example_runtime 0 0 0 0 default_world) =
       Inr \<lparr>w_config = 0, w_worker_queue = 0, w_cancellation_token = 0, w_factory = 0,
             w_uploader = 0, w_timeout = 1 / 5\<rparr>"
    unfolding wi f [symmetric] by simp
  from a1 a2 a3 none m w show ?thesis by blast
qed

section \<open>The worker's loop\<close>









lemma cancelled_world_token: "tokens cancelled_world r"
  by (simp add: cancelled_world_def)



text \<open>
  C5. A worker whose cancellation token is set when \<^verbatim>\<open>run\<close> starts returns at the first
  test of the loop, whatever number of passes it is allowed: the store is unchanged, so
  nothing was taken from the queue, no upload was called and no sleep was made (the
  return comes before any poll interval has been slept).
\<close>

theorem run_cancelled_before_first_pass:
  assumes "tokens w (w_cancellation_token wk)"
  shows "Worker_run rt others (Suc n) wk w = (Returned, w)
     \<and> trace (snd (Worker_run rt others (Suc n) wk w)) = trace w
     \<and> queues (snd (Worker_run rt others (Suc n) wk w)) = queues w"
  using assms by (simp add: Worker_run_def Worker_pass_def)

text \<open>With two files queued and the token set, both files stay in the queue.\<close>

theorem run_cancelled_before_first_pass_witness:
  "tokens cancelled_world (w_cancellation_token main_worker)
   \<and> queues cancelled_world 0 = [main_file ''a.dat'', main_file ''b.dat'']
   \<and> Worker_run example_runtime no_others 1 main_worker cancelled_world
       = (Returned, cancelled_world)
   \<and> trace (snd (Worker_run example_runtime no_others 1 main_worker cancelled_world))
       = [ClientCreated (main_client)]
   \<and> queues (snd (Worker_run example_runtime no_others 1 main_worker cancelled_world)) 0
       = [main_file ''a.dat'', main_file ''b.dat'']"
proof -
  have q: "queues cancelled_world 0 = [main_file ''a.dat'', main_file ''b.dat'']"
      "trace cancelled_world = [ClientCreated (main_client)]"
    by (simp_all add: cancelled_world_def busy_world_queue busy_world_trace)
  from q cancelled_world_token [of "w_cancellation_token main_worker"]
    run_cancelled_before_first_pass
      [OF cancelled_world_token [of "w_cancellation_token main_worker"],
       of example_runtime no_others 0]
  show ?thesis by simp
qed




section \<open>Stopping the manager\<close>






section \<open>Preparing the manager\<close>

lemma funpow_open_swap:
  "((\<lambda>v. snd (SimpleStorage_open rt r v)) ^^ k) (snd (SimpleStorage_open rt r w))
     = snd (SimpleStorage_open rt r (((\<lambda>v. snd (SimpleStorage_open rt r v)) ^^ k) w))"
  using funpow_swap1 [of "\<lambda>v. snd (SimpleStorage_open rt r v)" k w] by simp

lemma prepare_loop_ok:
  assumes "PropertiesConfig_get (configs w (sf_config (factories w (m_factory m))))
             (PStr ''files.provider'') = Some name"
    and "sf_options (factories w (m_factory m)) name = Some r"
    and "client_raises rt (client_args (configs w (ss_config (storages w r)))) = None"
    and "float_or_0_2 rt (PropertiesConfig_get (configs w (m_config m)) (PStr ''worker.timeout''))
           = Inr t"
  shows "prepare_loop rt k m w =
     (None,
      m\<lparr>m_workers := m_workers m @ replicate k
          \<lparr>t_target = \<lparr>w_config = m_config m, w_worker_queue = m_worker_queue m,
                        w_cancellation_token = m_cancellation_token m, w_factory = m_factory m,
                        w_uploader = r, w_timeout = t\<rparr>,
           t_status = Initial\<rparr>\<rparr>,
      ((\<lambda>v. snd (SimpleStorage_open rt r v)) ^^ k) w)"
  using assms
proof (induction k arbitrary: m w)
  case 0
  then show ?case by simp
next
  case (Suc k)
  show ?case
    using Suc.prems by (simp add: Worker_init_ok Suc.IH funpow_open_swap)
qed

lemma Manager_prepare_ok:
  assumes "PropertiesConfig_get (configs w (sf_config (factories w (m_factory m))))
             (PStr ''files.provider'') = Some name"
    and "sf_options (factories w (m_factory m)) name = Some r"
    and "client_raises rt (client_args (configs w (ss_config (storages w r)))) = None"
    and "float_or_0_2 rt (PropertiesConfig_get (configs w (m_config m)) (PStr ''worker.timeout''))
           = Inr t"
  shows "Manager_prepare rt m w =
     (None,
      m\<lparr>m_workers := replicate (nat (m_number_of_threads m))
          \<lparr>t_target = \<lparr>w_config = m_config m, w_worker_queue = m_worker_queue m,
                        w_cancellation_token = m_cancellation_token m, w_factory = m_factory m,
                        w_uploader = r, w_timeout = t\<rparr>,
           t_status = Initial\<rparr>\<rparr>,
      ((\<lambda>v. snd (SimpleStorage_open rt r v)) ^^ nat (m_number_of_threads m)) w)"
  using prepare_loop_ok [of w "m\<lparr>m_workers := []\<rparr>" name r rt t "nat (m_number_of_threads m)"]
    assms
  by (simp add: Manager_prepare_def)

lemma Manager_prepare_refused:
  assumes "PropertiesConfig_get (configs w (sf_config (factories w (m_factory m))))
             (PStr ''files.provider'') = Some name"
    and "sf_options (factories w (m_factory m)) name = Some r"
    and "client_raises rt (client_args (configs w (ss_config (storages w r)))) = Some e"
    and "0 < m_number_of_threads m"
  shows "Manager_prepare rt m w =
     (Some e, m\<lparr>m_workers := []\<rparr>, snd (SimpleStorage_open rt r w))"
proof -
  obtain k where k: "nat (m_number_of_threads m) = Suc k"
    using assms(4) by (cases "nat (m_number_of_threads m)") simp_all
  have "Worker_init rt (m_config m) (m_worker_queue m) (m_cancellation_token m) (m_factory m) w
      = (Inl e, snd (SimpleStorage_open rt r w))"
    using assms(1,2,3) by (simp add: Worker_init_def build_registered)
  then show ?thesis by (simp add: Manager_prepare_def k)
qed

lemma funpow_open_client:
  "client_raises rt (client_args (configs w (ss_config (storages w r)))) = None \<Longrightarrow>
   ss_client (storages (((\<lambda>v. snd (SimpleStorage_open rt r v)) ^^ Suc k) w) r)
     = Some (client_args (configs w (ss_config (storages w r))))"
  by (simp add: open_client)

lemma main_manager_init: "Manager_init example_runtime 0 0 0 0 main_world = Inr main_manager"
  by (simp add: Manager_init_def main_world_config main_manager_def int_or_def
        example_runtime_def cfg_defs)

lemma main_prepare:
  "Manager_prepare example_runtime main_manager main_world =
     (None,
      main_manager\<lparr>m_workers := replicate 7 \<lparr>t_target = main_worker, t_status = Initial\<rparr>\<rparr>,
      ((\<lambda>v. snd (SimpleStorage_open example_runtime 0 v)) ^^ 7) main_world)"
proof -
  have a: "PropertiesConfig_get
            (configs main_world (sf_config (factories main_world (m_factory main_manager))))
            (PStr ''files.provider'') = Some ''s3''"
    by (simp add: main_world_config main_config_provider)
  have b: "sf_options (factories main_world (m_factory main_manager)) ''s3'' = Some 0"
    by (simp add: main_manager_def main_world_registered)
  have c: "client_raises example_runtime
      (client_args (configs main_world (ss_config (storages main_world 0)))) = None"
    by (simp add: main_world_config main_client_args main_client_accepted)
  have d: "float_or_0_2 example_runtime
             (PropertiesConfig_get (configs main_world (m_config main_manager))
                (PStr ''worker.timeout'')) = Inr (1 / 20)"
    by (simp add: main_world_config main_config_timeout float_or_0_2_def example_runtime_def)
  show ?thesis
    using Manager_prepare_ok [OF a b c d] by (simp add: main_manager_def main_worker_def)
qed

text \<open>
  C1, as the program has it. When the provider names a registered engine, boto3 accepts
  the three connection entries of that engine's configuration and the poll interval can
  be read, \<^verbatim>\<open>prepare()\<close> raises nothing and leaves exactly \<^verbatim>\<open>number_of_threads\<close>
  threads (none for a number below 1), whose workers all hold the manager's queue, the
  manager's cancellation token and the one registered engine. Every worker calls
  \<^verbatim>\<open>build()\<close> in its constructor, so \<^verbatim>\<open>open()\<close> runs once per worker on that engine:
  \<^verbatim>\<open>number_of_threads\<close> times, not once; after the first it holds the client made from
  those entries. When boto3 refuses the entries and a thread is asked for, the first
  \<^verbatim>\<open>Worker(...)\<close> raises from \<^verbatim>\<open>open()\<close>, \<^verbatim>\<open>prepare()\<close> ends with that exception and
  no thread is left.
\<close>

theorem prepare_builds_for_every_worker:
  "(PropertiesConfig_get (configs w (sf_config (factories w (m_factory m))))
        (PStr ''files.provider'') = Some name
    \<and> sf_options (factories w (m_factory m)) name = Some r
    \<and> client_raises rt
        \<lparr>aws_access_key_id =
           PropertiesConfig_get (configs w (ss_config (storages w r))) (PStr ''aws_access_key_id''),
         aws_secret_access_key =
           PropertiesConfig_get (configs w (ss_config (storages w r))) (PStr ''aws_secret_access_key''),
         endpoint_url =
           PropertiesConfig_get (configs w (ss_config (storages w r))) (PStr ''endpoint_url'')\<rparr> = None
    \<and> float_or_0_2 rt (PropertiesConfig_get (configs w (m_config m)) (PStr ''worker.timeout''))
        = Inr t \<longrightarrow>
      Manager_prepare rt m w =
        (None,
         m\<lparr>m_workers := replicate (nat (m_number_of_threads m))
          \<lparr>t_target = \<lparr>w_config = m_config m, w_worker_queue = m_worker_queue m,
                        w_cancellation_token = m_cancellation_token m, w_factory = m_factory m,
                        w_uploader = r, w_timeout = t\<rparr>,
           t_status = Initial\<rparr>\<rparr>,
         ((\<lambda>v. snd (SimpleStorage_open rt r v)) ^^ nat (m_number_of_threads m)) w)
      \<and> length (m_workers (fst (snd (Manager_prepare rt m w)))) = nat (m_number_of_threads m)
      \<and> opens (trace (snd (snd (Manager_prepare rt m w))))
          = opens (trace w) + nat (m_number_of_threads m)
      \<and> tokens (snd (snd (Manager_prepare rt m w))) = tokens w
      \<and> queues (snd (snd (Manager_prepare rt m w))) = queues w
      \<and> (0 < m_number_of_threads m \<longrightarrow>
           ss_client (storages (snd (snd (Manager_prepare rt m w))) r) = Some
        \<lparr>aws_access_key_id =
           PropertiesConfig_get (configs w (ss_config (storages w r))) (PStr ''aws_access_key_id''),
         aws_secret_access_key =
           PropertiesConfig_get (configs w (ss_config (storages w r))) (PStr ''aws_secret_access_key''),
         endpoint_url =
           PropertiesConfig_get (configs w (ss_config (storages w r))) (PStr ''endpoint_url'')\<rparr>))
   \<and> (PropertiesConfig_get (configs w (sf_config (factories w (m_factory m))))
        (PStr ''files.provider'') = Some name
    \<and> sf_options (factories w (m_factory m)) name = Some r
    \<and> client_raises rt
        \<lparr>aws_access_key_id =
           PropertiesConfig_get (configs w (ss_config (storages w r))) (PStr ''aws_access_key_id''),
         aws_secret_access_key =
           PropertiesConfig_get (configs w (ss_config (storages w r))) (PStr ''aws_secret_access_key''),
         endpoint_url =
           PropertiesConfig_get (configs w (ss_config (storages w r))) (PStr ''endpoint_url'')\<rparr> = Some e
    \<and> 0 < m_number_of_threads m \<longrightarrow>
      fst (Manager_prepare rt m w) = Some e
      \<and> m_workers (fst (snd (Manager_prepare rt m w))) = []
      \<and> opens (trace (snd (snd (Manager_prepare rt m w)))) = Suc (opens (trace w))
      \<and> ss_client (storages (snd (snd (Manager_prepare rt m w))) r) = None)"
proof -
  let ?args = "client_args (configs w (ss_config (storages w r)))"
  let ?n = "nat (m_number_of_threads m)"
  have args: "?args =
        \<lparr>aws_access_key_id =
           PropertiesConfig_get (configs w (ss_config (storages w r))) (PStr ''aws_access_key_id''),
         aws_secret_access_key =
           PropertiesConfig_get (configs w (ss_config (storages w r))) (PStr ''aws_secret_access_key''),
         endpoint_url =
           PropertiesConfig_get (configs w (ss_config (storages w r))) (PStr ''endpoint_url'')\<rparr>"
    by (simp add: client_args_def)
  have ok: "PropertiesConfig_get (configs w (sf_config (factories w (m_factory m))))
        (PStr ''files.provider'') = Some name
    \<and> sf_options (factories w (m_factory m)) name = Some r
    \<and> client_raises rt ?args = None
    \<and> float_or_0_2 rt (PropertiesConfig_get (configs w (m_config m)) (PStr ''worker.timeout''))
        = Inr t \<longrightarrow>
      Manager_prepare rt m w =
        (None,
         m\<lparr>m_workers := replicate ?n
          \<lparr>t_target = \<lparr>w_config = m_config m, w_worker_queue = m_worker_queue m,
                        w_cancellation_token = m_cancellation_token m, w_factory = m_factory m,
                        w_uploader = r, w_timeout = t\<rparr>,
           t_status = Initial\<rparr>\<rparr>,
         ((\<lambda>v. snd (SimpleStorage_open rt r v)) ^^ ?n) w)
      \<and> length (m_workers (fst (snd (Manager_prepare rt m w)))) = ?n
      \<and> opens (trace (snd (snd (Manager_prepare rt m w)))) = opens (trace w) + ?n
      \<and> tokens (snd (snd (Manager_prepare rt m w))) = tokens w
      \<and> queues (snd (snd (Manager_prepare rt m w))) = queues w
      \<and> (0 < m_number_of_threads m \<longrightarrow>
           ss_client (storages (snd (snd (Manager_prepare rt m w))) r) = Some ?args)"
  proof (intro impI, elim conjE)
    assume h: "PropertiesConfig_get (configs w (sf_config (factories w (m_factory m))))
        (PStr ''files.provider'') = Some name"
      "sf_options (factories w (m_factory m)) name = Some r"
      "client_raises rt ?args = None"
      "float_or_0_2 rt (PropertiesConfig_get (configs w (m_config m)) (PStr ''worker.timeout''))
        = Inr t"
    note p = Manager_prepare_ok [OF h]
    have cl: "0 < m_number_of_threads m \<longrightarrow>
           ss_client (storages (snd (snd (Manager_prepare rt m w))) r) = Some ?args"
    proof
      assume "0 < m_number_of_threads m"
      then obtain k where k: "?n = Suc k" by (cases ?n) simp_all
      show "ss_client (storages (snd (snd (Manager_prepare rt m w))) r) = Some ?args"
        unfolding p k using funpow_open_client [OF h(3), of k] by simp
    qed
    have rest: "length (m_workers (fst (snd (Manager_prepare rt m w)))) = ?n"
        "opens (trace (snd (snd (Manager_prepare rt m w)))) = opens (trace w) + ?n"
        "tokens (snd (snd (Manager_prepare rt m w))) = tokens w"
        "queues (snd (snd (Manager_prepare rt m w))) = queues w"
      unfolding p by (simp_all add: opens_funpow)
    from p rest cl show "Manager_prepare rt m w =
        (None,
         m\<lparr>m_workers := replicate ?n
          \<lparr>t_target = \<lparr>w_config = m_config m, w_worker_queue = m_worker_queue m,
                        w_cancellation_token = m_cancellation_token m, w_factory = m_factory m,
                        w_uploader = r, w_timeout = t\<rparr>,
           t_status = Initial\<rparr>\<rparr>,
         ((\<lambda>v. snd (SimpleStorage_open rt r v)) ^^ ?n) w)
      \<and> length (m_workers (fst (snd (Manager_prepare rt m w)))) = ?n
      \<and> opens (trace (snd (snd (Manager_prepare rt m w)))) = opens (trace w) + ?n
      \<and> tokens (snd (snd (Manager_prepare rt m w))) = tokens w
      \<and> queues (snd (snd (Manager_prepare rt m w))) = queues w
      \<and> (0 < m_number_of_threads m \<longrightarrow>
           ss_client (storages (snd (snd (Manager_prepare rt m w))) r) = Some ?args)"
      by blast
  qed
  have bad: "PropertiesConfig_get (configs w (sf_config (factories w (m_factory m))))
        (PStr ''files.provider'') = Some name
    \<and> sf_options (factories w (m_factory m)) name = Some r
    \<and> client_raises rt ?args = Some e
    \<and> 0 < m_number_of_threads m \<longrightarrow>
      fst (Manager_prepare rt m w) = Some e
      \<and> m_workers (fst (snd (Manager_prepare rt m w))) = []
      \<and> opens (trace (snd (snd (Manager_prepare rt m w)))) = Suc (opens (trace w))
      \<and> ss_client (storages (snd (snd (Manager_prepare rt m w))) r) = None"
  proof (intro impI, elim conjE)
    assume h: "PropertiesConfig_get (configs w (sf_config (factories w (m_factory m))))
        (PStr ''files.provider'') = Some name"
      "sf_options (factories w (m_factory m)) name = Some r"
      "client_raises rt ?args = Some e"
      "0 < m_number_of_threads m"
    note p = Manager_prepare_refused [OF h]
    show "fst (Manager_prepare rt m w) = Some e
      \<and> m_workers (fst (snd (Manager_prepare rt m w))) = []
      \<and> opens (trace (snd (snd (Manager_prepare rt m w)))) = Suc (opens (trace w))
      \<and> ss_client (storages (snd (snd (Manager_prepare rt m w))) r) = None"
      unfolding p by (simp add: open_client h(3))
  qed
  note ok' = ok [unfolded args]
  note bad' = bad [unfolded args]
  from ok' bad' show ?thesis by blast
qed

text \<open>
  \<^verbatim>\<open>__main__\<close>: seven workers on the engine \<^verbatim>\<open>"s3"\<close>, opened seven times; and with
  an endpoint that is no URL, no worker.
\<close>

theorem prepare_builds_for_every_worker_witness:
  "PropertiesConfig_get
      (configs main_world (sf_config (factories main_world (m_factory main_manager))))
      (PStr ''files.provider'') = Some ''s3''
   \<and> sf_options (factories main_world (m_factory main_manager)) ''s3'' = Some 0
   \<and> client_raises example_runtime main_client = None
   \<and> float_or_0_2 example_runtime
        (PropertiesConfig_get (configs main_world (m_config main_manager))
           (PStr ''worker.timeout'')) = Inr (1 / 20)
   \<and> fst (Manager_prepare example_runtime main_manager main_world) = None
   \<and> m_workers (fst (snd (Manager_prepare example_runtime main_manager main_world)))
       = replicate 7 \<lparr>t_target = main_worker, t_status = Initial\<rparr>
   \<and> opens (trace (snd (snd (Manager_prepare example_runtime main_manager main_world)))) = 7
   \<and> ss_client (storages (snd (snd (Manager_prepare example_runtime main_manager main_world))) 0)
       = Some main_client
   \<and> PropertiesConfig_get
      (configs broken_world (sf_config (factories broken_world (m_factory main_manager))))
      (PStr ''files.provider'') = Some ''s3''
   \<and> sf_options (factories broken_world (m_factory main_manager)) ''s3'' = Some 0
   \<and> client_raises example_runtime (main_client\<lparr>endpoint_url := Some ''not a url''\<rparr>)
       = Some ValueError
   \<and> 0 < m_number_of_threads main_manager
   \<and> fst (Manager_prepare example_runtime main_manager broken_world) = Some ValueError
   \<and> m_workers (fst (snd (Manager_prepare example_runtime main_manager broken_world))) = []"
proof -
  have f: "m_factory main_manager = 0" "m_config main_manager = 0"
      "m_number_of_threads main_manager = 7"
    by (simp_all add: main_manager_def)
  have a: "PropertiesConfig_get
            (configs main_world (sf_config (factories main_world (m_factory main_manager))))
            (PStr ''files.provider'') = Some ''s3''"
    by (simp add: main_world_config main_config_provider)
  have b: "sf_options (factories main_world (m_factory main_manager)) ''s3'' = Some 0"
    by (simp add: f main_world_registered)
  have am: "\<lparr>aws_access_key_id = PropertiesConfig_get
           (configs main_world (ss_config (storages main_world 0))) (PStr ''aws_access_key_id''),
         aws_secret_access_key = PropertiesConfig_get
           (configs main_world (ss_config (storages main_world 0))) (PStr ''aws_secret_access_key''),
         endpoint_url = PropertiesConfig_get
           (configs main_world (ss_config (storages main_world 0))) (PStr ''endpoint_url'')\<rparr>
      = main_client"
    using main_client_args by (simp add: client_args_def main_world_config)
  have d: "float_or_0_2 example_runtime
             (PropertiesConfig_get (configs main_world (m_config main_manager))
                (PStr ''worker.timeout'')) = Inr (1 / 20)"
    by (simp add: main_world_config main_config_timeout float_or_0_2_def example_runtime_def)
  note T = prepare_builds_for_every_worker
    [of main_world main_manager "''s3''" 0 example_runtime "1 / 20", unfolded am]
  have n: "nat (m_number_of_threads main_manager) = 7" by (simp add: f)
  have p: "Manager_prepare example_runtime main_manager main_world =
     (None,
      main_manager\<lparr>m_workers := replicate (nat (m_number_of_threads main_manager))
          \<lparr>t_target = \<lparr>w_config = m_config main_manager,
                        w_worker_queue = m_worker_queue main_manager,
                        w_cancellation_token = m_cancellation_token main_manager,
                        w_factory = m_factory main_manager,
                        w_uploader = 0, w_timeout = 1 / 20\<rparr>,
           t_status = Initial\<rparr>\<rparr>,
      ((\<lambda>v. snd (SimpleStorage_open example_runtime 0 v))
         ^^ nat (m_number_of_threads main_manager)) main_world)"
    using T a b main_client_accepted d by blast
  have ok: "fst (Manager_prepare example_runtime main_manager main_world) = None"
    unfolding p by simp
  have ws: "m_workers (fst (snd (Manager_prepare example_runtime main_manager main_world)))
       = replicate 7 \<lparr>t_target = main_worker, t_status = Initial\<rparr>"
    unfolding p n by (simp add: main_manager_def main_worker_def)
  have "opens (trace (snd (snd (Manager_prepare example_runtime main_manager main_world))))
       = opens (trace main_world) + nat (m_number_of_threads main_manager)"
    using T a b main_client_accepted d by blast
  then have os: "opens (trace (snd (snd (Manager_prepare example_runtime main_manager main_world)))) = 7"
    by (simp only: n main_world_trace opens.simps add_0)
  have pos: "0 < m_number_of_threads main_manager" by (simp add: f)
  have cl: "ss_client (storages (snd (snd (Manager_prepare example_runtime main_manager main_world))) 0)
       = Some main_client"
    using T a b main_client_accepted d pos by blast
  have xa: "PropertiesConfig_get
      (configs broken_world (sf_config (factories broken_world (m_factory main_manager))))
      (PStr ''files.provider'') = Some ''s3''"
    using broken_world_provider by (simp add: f)
  have xb: "sf_options (factories broken_world (m_factory main_manager)) ''s3'' = Some 0"
    by (simp add: f broken_world_registered)
  have ax: "\<lparr>aws_access_key_id = PropertiesConfig_get
           (configs broken_world (ss_config (storages broken_world 0))) (PStr ''aws_access_key_id''),
         aws_secret_access_key = PropertiesConfig_get
           (configs broken_world (ss_config (storages broken_world 0))) (PStr ''aws_secret_access_key''),
         endpoint_url = PropertiesConfig_get
           (configs broken_world (ss_config (storages broken_world 0))) (PStr ''endpoint_url'')\<rparr>
      = main_client\<lparr>endpoint_url := Some ''not a url''\<rparr>"
    using broken_world_args by (simp add: client_args_def)
  have rx: "client_raises example_runtime (main_client\<lparr>endpoint_url := Some ''not a url''\<rparr>)
       = Some ValueError"
    using broken_world_refused by (simp add: broken_world_args)
  note X = prepare_builds_for_every_worker
    [of broken_world main_manager "''s3''" 0 example_runtime _ ValueError, unfolded ax]
  have x1: "fst (Manager_prepare example_runtime main_manager broken_world) = Some ValueError"
    using X xa xb rx pos by blast
  have x2: "m_workers (fst (snd (Manager_prepare example_runtime main_manager broken_world))) = []"
    using X xa xb rx pos by blast
  from a b main_client_accepted d ok ws os cl xa xb rx pos x1 x2 show ?thesis by blast
qed

text \<open>
  C1 as stated, with \<^verbatim>\<open>open()\<close> invoked exactly once during preparation, fails on the
  program's own run: the manager of \<^verbatim>\<open>__main__\<close> has seven threads, and its
  \<^verbatim>\<open>prepare()\<close> opens the engine seven times.
\<close>

theorem prepare_opens_once_counterexample:
  "Manager_init example_runtime 0 0 0 0 main_world = Inr main_manager
   \<and> m_number_of_threads main_manager = 7
   \<and> fst (Manager_prepare example_runtime main_manager main_world) = None
   \<and> opens (trace main_world) = 0
   \<and> opens (trace (snd (snd (Manager_prepare example_runtime main_manager main_world)))) = 7
   \<and> opens (trace (snd (snd (Manager_prepare example_runtime main_manager main_world)))) \<noteq> 1"
  by (simp add: main_manager_init main_prepare opens_funpow main_world_trace)
    (simp add: main_manager_def)

section \<open>A failed upload\<close>

lemma upload_file_world:
  "SimpleStorage_upload_file rt u item v = (res, w2) \<Longrightarrow>
   tokens w2 = tokens v \<and> queues w2 = queues v
   \<and> trace w2 = trace v @
       (case ss_client (storages v u) of
          None \<Rightarrow> []
        | Some cl \<Rightarrow>
            [UploadCall cl
               \<lparr>Filename = f_filepath item,
                Bucket = File_bucket (configs v (f_config item)) item,
                Key = File_key (configs v (f_config item)) item\<rparr>])"
  by (auto simp: SimpleStorage_upload_file_def Let_def split: option.splits)

lemma Worker_pass_upload_fails:
  "\<not> tokens w (w_cancellation_token wk) \<Longrightarrow> queues w (w_worker_queue wk) = item # rest \<Longrightarrow>
   SimpleStorage_upload_file rt (w_uploader wk) item
     ((emit (QueueGet (w_worker_queue wk) True) w)
        \<lparr>queues := (queues w)(w_worker_queue wk := rest)\<rparr>) = (Some e, w2) \<Longrightarrow>
   Worker_pass rt wk w = (Raised e, w2)"
  by (simp add: Worker_pass_def)

lemma thread_pass_other:
  "j \<noteq> i \<Longrightarrow> fst (thread_pass rt i (ts, w)) ! j = ts ! j"
  by (simp add: thread_pass_def split: prod.splits pass.splits)

lemma thread_pass_not_alive:
  "t_status (ts ! j) \<noteq> Alive \<Longrightarrow> fst (thread_pass rt i (ts, w)) ! j = ts ! j"
  by (cases "j = i") (simp_all add: thread_pass_def split: prod.splits pass.splits)

lemma threads_run_not_alive:
  "t_status (fst s ! j) \<noteq> Alive \<Longrightarrow> fst (threads_run rt sched s) ! j = fst s ! j"
proof (induction sched arbitrary: s)
  case Nil
  then show ?case by simp
next
  case (Cons i sched)
  obtain ts w where s: "s = (ts, w)" by (cases s)
  have same: "fst (thread_pass rt i s) ! j = fst s ! j"
    using Cons.prems s thread_pass_not_alive [of ts j rt i w] by simp
  have "fst (threads_run rt sched (thread_pass rt i s)) ! j = fst (thread_pass rt i s) ! j"
    using Cons.prems same by (intro Cons.IH) simp
  with same show ?case by simp
qed

lemma busy_upload_fails:
  "SimpleStorage_upload_file failing_runtime (w_uploader main_worker) (main_file ''a.dat'')
     ((emit (QueueGet (w_worker_queue main_worker) True) busy_world)
        \<lparr>queues := (queues busy_world)(w_worker_queue main_worker := [main_file ''b.dat''])\<rparr>)
   = (Some ClientError,
      emit (UploadCall (main_client)
              \<lparr>Filename = ''./carne_asada.dat'', Bucket = Some ''bom'', Key = ''upload/a.dat''\<rparr>)
        ((emit (QueueGet (w_worker_queue main_worker) True) busy_world)
           \<lparr>queues := (queues busy_world)(w_worker_queue main_worker := [main_file ''b.dat''])\<rparr>))"
  by (simp add: SimpleStorage_upload_file_def main_worker_def busy_world_client busy_world_config
       failing_runtime_def example_runtime_def Let_def main_file_def File_bucket_def File_key_def
       cfg_defs)

text \<open>
  C2, as the program has it. When the upload of the file a worker has taken from the
  queue raises (the engine is closed, or the boto3 call fails), nothing in \<^verbatim>\<open>run\<close>
  catches the exception: \<^verbatim>\<open>run\<close> ends with it, without sleeping, and the worker's
  thread is dead and stays dead under every later schedule. The failure is not retried:
  the file has left the queue and at most one upload call was made. Nothing else is
  touched: every other thread is as it was, and so is every cancellation token.
\<close>

theorem failed_upload_ends_that_worker:
  assumes i: "i < length ts" and alive: "t_status (ts ! i) = Alive"
    and target: "t_target (ts ! i) = wk"
    and clear: "\<not> tokens w (w_cancellation_token wk)"
    and queue: "queues w (w_worker_queue wk) = item # rest"
    and fails: "SimpleStorage_upload_file rt (w_uploader wk) item
        ((emit (QueueGet (w_worker_queue wk) True) w)
           \<lparr>queues := (queues w)(w_worker_queue wk := rest)\<rparr>) = (Some e, w2)"
  shows "Worker_run rt others (Suc n) wk w = (Threw e, w2)
   \<and> thread_pass rt i (ts, w) = (ts[i := (ts ! i)\<lparr>t_status := Died e\<rparr>], w2)
   \<and> (\<forall>j. j \<noteq> i \<longrightarrow> fst (thread_pass rt i (ts, w)) ! j = ts ! j)
   \<and> t_status (fst (threads_run rt sched (thread_pass rt i (ts, w))) ! i) = Died e
   \<and> tokens w2 = tokens w
   \<and> queues w2 = (queues w)(w_worker_queue wk := rest)
   \<and> trace w2 = trace w @ QueueGet (w_worker_queue wk) True #
       (case ss_client (storages w (w_uploader wk)) of
          None \<Rightarrow> []
        | Some cl \<Rightarrow>
            [UploadCall cl
               \<lparr>Filename = f_filepath item,
                Bucket = File_bucket (configs w (f_config item)) item,
                Key = File_key (configs w (f_config item)) item\<rparr>])"
proof -
  note pass = Worker_pass_upload_fails [OF clear queue fails]
  have run: "Worker_run rt others (Suc n) wk w = (Threw e, w2)"
    by (simp add: Worker_run_def pass)
  have tp: "thread_pass rt i (ts, w) = (ts[i := (ts ! i)\<lparr>t_status := Died e\<rparr>], w2)"
    using i alive target pass by (simp add: thread_pass_def)
  have others: "\<forall>j. j \<noteq> i \<longrightarrow> fst (thread_pass rt i (ts, w)) ! j = ts ! j"
    by (simp add: thread_pass_other)
  have "t_status (fst (thread_pass rt i (ts, w)) ! i) \<noteq> Alive"
    using i by (simp add: tp)
  then have "fst (threads_run rt sched (thread_pass rt i (ts, w))) ! i
      = fst (thread_pass rt i (ts, w)) ! i"
    by (rule threads_run_not_alive)
  then have dead: "t_status (fst (threads_run rt sched (thread_pass rt i (ts, w))) ! i) = Died e"
    using i by (simp add: tp)
  note uw = upload_file_world [OF fails]
  have tok: "tokens w2 = tokens w" using uw by simp
  have q: "queues w2 = (queues w)(w_worker_queue wk := rest)" using uw by simp
  have tr: "trace w2 = trace w @ QueueGet (w_worker_queue wk) True #
       (case ss_client (storages w (w_uploader wk)) of
          None \<Rightarrow> []
        | Some cl \<Rightarrow>
            [UploadCall cl
               \<lparr>Filename = f_filepath item,
                Bucket = File_bucket (configs w (f_config item)) item,
                Key = File_key (configs w (f_config item)) item\<rparr>])"
    using uw by (cases "ss_client (storages w (w_uploader wk))") simp_all
  from run tp others dead tok q tr show ?thesis by blast
qed

text \<open>
  Two threads, two files queued, and a remote store that refuses every upload: the
  first thread dies on the first file, the second thread is still alive.
\<close>

theorem failed_upload_ends_that_worker_witness:
  "t_status (two_threads ! 0) = Alive
   \<and> t_target (two_threads ! 0) = main_worker
   \<and> \<not> tokens busy_world (w_cancellation_token main_worker)
   \<and> queues busy_world (w_worker_queue main_worker) = [main_file ''a.dat'', main_file ''b.dat'']
   \<and> fst (SimpleStorage_upload_file failing_runtime (w_uploader main_worker) (main_file ''a.dat'')
        ((emit (QueueGet (w_worker_queue main_worker) True) busy_world)
           \<lparr>queues := (queues busy_world)(w_worker_queue main_worker := [main_file ''b.dat''])\<rparr>))
       = Some ClientError
   \<and> fst (Worker_run failing_runtime no_others 1 main_worker busy_world) = Threw ClientError
   \<and> fst (thread_pass failing_runtime 0 (two_threads, busy_world))
       = [\<lparr>t_target = main_worker, t_status = Died ClientError\<rparr>,
          \<lparr>t_target = main_worker, t_status = Alive\<rparr>]
   \<and> t_status (fst (threads_run failing_runtime [1, 0, 1]
         (thread_pass failing_runtime 0 (two_threads, busy_world))) ! 0) = Died ClientError
   \<and> \<not> tokens (snd (thread_pass failing_runtime 0 (two_threads, busy_world))) 0
   \<and> queues (snd (thread_pass failing_runtime 0 (two_threads, busy_world))) 0
       = [main_file ''b.dat'']"
proof -
  have i: "0 < length two_threads" and alive: "t_status (two_threads ! 0) = Alive"
    and target: "t_target (two_threads ! 0) = main_worker"
    by (simp_all add: two_threads_def)
  have clear: "\<not> tokens busy_world (w_cancellation_token main_worker)"
    by (simp add: busy_world_token)
  have queue: "queues busy_world (w_worker_queue main_worker)
      = [main_file ''a.dat'', main_file ''b.dat'']"
    by (simp add: busy_world_queue)
  note T = failed_upload_ends_that_worker
    [OF i alive target clear queue busy_upload_fails, of no_others 0 "[1, 0, 1]"]
  have f: "fst (SimpleStorage_upload_file failing_runtime (w_uploader main_worker)
        (main_file ''a.dat'')
        ((emit (QueueGet (w_worker_queue main_worker) True) busy_world)
           \<lparr>queues := (queues busy_world)(w_worker_queue main_worker := [main_file ''b.dat''])\<rparr>))
       = Some ClientError"
    by (simp add: busy_upload_fails)
  have run: "fst (Worker_run failing_runtime no_others 1 main_worker busy_world) = Threw ClientError"
    using T by simp
  have tp: "fst (thread_pass failing_runtime 0 (two_threads, busy_world))
       = [\<lparr>t_target = main_worker, t_status = Died ClientError\<rparr>,
          \<lparr>t_target = main_worker, t_status = Alive\<rparr>]"
    using T by (simp add: two_threads_def)
  have dead: "t_status (fst (threads_run failing_runtime [1, 0, 1]
         (thread_pass failing_runtime 0 (two_threads, busy_world))) ! 0) = Died ClientError"
    using T by blast
  have w2: "snd (thread_pass failing_runtime 0 (two_threads, busy_world)) =
      emit (UploadCall (main_client)
              \<lparr>Filename = ''./carne_asada.dat'', Bucket = Some ''bom'', Key = ''upload/a.dat''\<rparr>)
        ((emit (QueueGet (w_worker_queue main_worker) True) busy_world)
           \<lparr>queues := (queues busy_world)(w_worker_queue main_worker := [main_file ''b.dat''])\<rparr>)"
    using T by simp
  have tok: "\<not> tokens (snd (thread_pass failing_runtime 0 (two_threads, busy_world))) 0"
    unfolding w2 by (simp add: busy_world_token)
  have q: "queues (snd (thread_pass failing_runtime 0 (two_threads, busy_world))) 0
       = [main_file ''b.dat'']"
    unfolding w2 by (simp add: main_worker_def)
  from alive target clear queue f run tp dead tok q show ?thesis by blast
qed

text \<open>
  C2 as stated, with the worker continuing its loop after the failure, fails: with the
  token clear, two files queued and five passes allowed, the pass that fails does not go
  back to the test, \<^verbatim>\<open>run\<close> ends with the exception and the second file is still in
  the queue.
\<close>

theorem failed_upload_continues_counterexample:
  "\<not> tokens busy_world (w_cancellation_token main_worker)
   \<and> queues busy_world (w_worker_queue main_worker) = [main_file ''a.dat'', main_file ''b.dat'']
   \<and> fst (Worker_pass failing_runtime main_worker busy_world) = Raised ClientError
   \<and> fst (Worker_pass failing_runtime main_worker busy_world) \<noteq> Again
   \<and> fst (Worker_run failing_runtime no_others 5 main_worker busy_world) = Threw ClientError
   \<and> queues (snd (Worker_run failing_runtime no_others 5 main_worker busy_world)) 0
       = [main_file ''b.dat'']"
proof -
  have a: "\<not> tokens busy_world (w_cancellation_token main_worker)"
    by (simp add: busy_world_token)
  have b: "queues busy_world (w_worker_queue main_worker) = [main_file ''a.dat'', main_file ''b.dat'']"
    by (simp add: busy_world_queue)
  note pass = Worker_pass_upload_fails [OF a b busy_upload_fails]
  have run: "Worker_run failing_runtime no_others 5 main_worker busy_world =
      (Threw ClientError, snd (Worker_pass failing_runtime main_worker busy_world))"
    by (simp add: Worker_run_def pass eval_nat_numeral)
  have q: "queues (snd (Worker_pass failing_runtime main_worker busy_world)) 0 = [main_file ''b.dat'']"
    unfolding pass by (simp add: main_worker_def)
  from a b pass run q show ?thesis by simp
qed

end
